theory Spec2Isabelle
  imports Main
begin

section \<open>Strings and languages\<close>

text \<open>
  A JavaScript string is a sequence of UTF-16 code units. English text is written with
  \<open>asc\<close> applied to an ASCII literal; Korean text is given by its code units.
\<close>

type_synonym jsstring = "nat list"

definition asc :: "string \<Rightarrow> jsstring" where
  "asc s = map of_char s"

text \<open>\<^verbatim>\<open>export type Language = 'ko' | 'en'\<close>\<close>

datatype Language = Ko | En

section \<open>The reading plan (constants.ts)\<close>

record BookName =
  ko :: jsstring
  en :: jsstring

record Epistle =
  book :: BookName
  chapters :: int

record ReadingPlanItem =
  item_book :: BookName
  item_chapter :: int

record Reading =
  reading_book :: jsstring
  reading_chapter :: int

text \<open>The Korean names, in the order of the list, are those of Galatians, 1 and 2 Thessalonians,
  1 and 2 Corinthians, Romans, Colossians, Philemon, Ephesians, Philippians, 1 Timothy, Titus
  and 2 Timothy.\<close>

definition PAULINE_EPISTLES :: "Epistle list" where
  "PAULINE_EPISTLES =
    [\<lparr>book = \<lparr>ko = [44040, 46972, 46356, 50500, 49436], en = asc ''Galatians''\<rparr>, chapters = 6\<rparr>,
     \<lparr>book = \<lparr>ko = [45936, 49332, 47196, 45768, 44032, 51204, 49436],
        en = asc ''1 Thessalonians''\<rparr>, chapters = 5\<rparr>,
     \<lparr>book = \<lparr>ko = [45936, 49332, 47196, 45768, 44032, 54980, 49436],
        en = asc ''2 Thessalonians''\<rparr>, chapters = 3\<rparr>,
     \<lparr>book = \<lparr>ko = [44256, 47536, 46020, 51204, 49436], en = asc ''1 Corinthians''\<rparr>,
        chapters = 16\<rparr>,
     \<lparr>book = \<lparr>ko = [44256, 47536, 46020, 54980, 49436], en = asc ''2 Corinthians''\<rparr>,
        chapters = 13\<rparr>,
     \<lparr>book = \<lparr>ko = [47196, 47560, 49436], en = asc ''Romans''\<rparr>, chapters = 16\<rparr>,
     \<lparr>book = \<lparr>ko = [44264, 47196, 49352, 49436], en = asc ''Colossians''\<rparr>, chapters = 4\<rparr>,
     \<lparr>book = \<lparr>ko = [48716, 47112, 47788, 49436], en = asc ''Philemon''\<rparr>, chapters = 1\<rparr>,
     \<lparr>book = \<lparr>ko = [50640, 48288, 49548, 49436], en = asc ''Ephesians''\<rparr>, chapters = 6\<rparr>,
     \<lparr>book = \<lparr>ko = [48716, 47549, 48372, 49436], en = asc ''Philippians''\<rparr>, chapters = 4\<rparr>,
     \<lparr>book = \<lparr>ko = [46356, 47784, 45936, 51204, 49436], en = asc ''1 Timothy''\<rparr>,
        chapters = 6\<rparr>,
     \<lparr>book = \<lparr>ko = [46356, 46020, 49436], en = asc ''Titus''\<rparr>, chapters = 3\<rparr>,
     \<lparr>book = \<lparr>ko = [46356, 47784, 45936, 54980, 49436], en = asc ''2 Timothy''\<rparr>,
        chapters = 4\<rparr>]"

text \<open>
  \<^verbatim>\<open>PAULINE_EPISTLES.forEach(({ book, chapters }) => {
    for (let i = 1; i <= chapters; i++) { plan.push({ book, chapter: i }); } })\<close>
  The inner loop pushes one item per \<open>i\<close> of \<open>[1..chapters]\<close>; the outer one appends the
  runs in list order.
\<close>

definition planOf :: "Epistle \<Rightarrow> ReadingPlanItem list" where
  "planOf e = map (\<lambda>i. \<lparr>item_book = book e, item_chapter = i\<rparr>) [1..chapters e]"

fun generateReadingPlanFrom :: "Epistle list \<Rightarrow> ReadingPlanItem list \<Rightarrow> ReadingPlanItem list" where
  "generateReadingPlanFrom [] plan = plan"
| "generateReadingPlanFrom (e # es) plan = generateReadingPlanFrom es (plan @ planOf e)"

definition generateReadingPlan :: "ReadingPlanItem list" where
  "generateReadingPlan = generateReadingPlanFrom PAULINE_EPISTLES []"

definition readingPlan :: "ReadingPlanItem list" where
  "readingPlan = generateReadingPlan"

definition totalChapters :: int where
  "totalChapters = int (length readingPlan)"

section \<open>The daily reading (constants.ts)\<close>

text \<open>
  A \<^verbatim>\<open>Date\<close> is its time value, the milliseconds since the epoch. What the browser's time
  zone contributes is kept as a parameter: \<open>setHoursZero t\<close> is the time value of
  \<^verbatim>\<open>d.setHours(0,0,0,0)\<close> for a date \<open>d\<close> of time value \<open>t\<close> (local midnight of the local
  calendar day of \<open>t\<close>), and \<open>newDate y m d\<close> is the time value of \<^verbatim>\<open>new Date(y, m, d)\<close>, local
  midnight of day \<open>d\<close> of the month of index \<open>m\<close> (0 is January) of year \<open>y\<close>.
  The quotient \<^verbatim>\<open>Math.floor(a / b)\<close> is the integer floor division.
\<close>

record LocalTime =
  setHoursZero :: "int \<Rightarrow> int"
  newDate :: "int \<Rightarrow> int \<Rightarrow> int \<Rightarrow> int"

definition oneDay :: int where
  "oneDay = 1000 * 60 * 60 * 24"

text \<open>\<^verbatim>\<open>const SCHEDULE_START_DATE = new Date(2024, 6, 27); // Month is 0-indexed, so 6 is July.
  SCHEDULE_START_DATE.setHours(0,0,0,0);\<close>\<close>

definition SCHEDULE_START_DATE :: "LocalTime \<Rightarrow> int" where
  "SCHEDULE_START_DATE tz = setHoursZero tz (newDate tz 2024 6 27)"

definition bookIn :: "Language \<Rightarrow> BookName \<Rightarrow> jsstring" where
  "bookIn language b = (case language of Ko \<Rightarrow> ko b | En \<Rightarrow> en b)"

definition dayOfSchedule :: "LocalTime \<Rightarrow> int \<Rightarrow> int" where
  "dayOfSchedule tz date =
    (let currentDate = setHoursZero tz date;
         d = (currentDate - SCHEDULE_START_DATE tz) div oneDay
     in if d < 0 then 0 else d)"

definition getDailyReading :: "LocalTime \<Rightarrow> int \<Rightarrow> Language \<Rightarrow> Reading \<times> Reading" where
  "getDailyReading tz date language =
    (let startIndex = (dayOfSchedule tz date * 2) mod totalChapters;
         firstChapterItem = readingPlan ! nat startIndex;
         secondChapterItem = readingPlan ! nat ((startIndex + 1) mod totalChapters)
     in (\<lparr>reading_book = bookIn language (item_book firstChapterItem),
          reading_chapter = item_chapter firstChapterItem\<rparr>,
         \<lparr>reading_book = bookIn language (item_book secondChapterItem),
          reading_chapter = item_chapter secondChapterItem\<rparr>))"

text \<open>
  A time zone with a fixed offset \<open>off\<close> (milliseconds east of UTC), used as a concrete
  input below. \<open>daysFromCivil y m d\<close> is the number of days from 1 January 1970 to day \<open>d\<close>
  of month \<open>m\<close> (1 is January) of year \<open>y\<close> in the Gregorian calendar.
\<close>

definition daysFromCivil :: "int \<Rightarrow> int \<Rightarrow> int \<Rightarrow> int" where
  "daysFromCivil y m d =
    (let y' = (if m \<le> 2 then y - 1 else y);
         era = y' div 400;
         yoe = y' - era * 400;
         doy = (153 * (if m > 2 then m - 3 else m + 9) + 2) div 5 + d - 1;
         doe = yoe * 365 + yoe div 4 - yoe div 100 + doy
     in era * 146097 + doe - 719468)"

definition fixedOffset :: "int \<Rightarrow> LocalTime" where
  "fixedOffset off =
    \<lparr>setHoursZero = (\<lambda>t. ((t + off) div oneDay) * oneDay - off),
     newDate = (\<lambda>y m d. daysFromCivil y (m + 1) d * oneDay - off)\<rparr>"

text \<open>
  The time zone of Sydney around the start of daylight saving in 2024, used as a concrete
  input below. The offset is 10 hours, and 11 hours from 5 October 2024 16:00 UTC (2:00
  local time on 6 October) to 5 April 2025 16:00 UTC; \<open>sydneyOffset t\<close> is the offset in
  force at the instant \<open>t\<close>, for instants from April 2024 to October 2025. \<open>sydneyMidnight n\<close>
  is the time value of the local midnight that begins day \<open>n\<close> of the epoch there.
\<close>

definition sydneyOffset :: "int \<Rightarrow> int" where
  "sydneyOffset t = (if 1728144000000 \<le> t \<and> t < 1743868800000 then 39600000 else 36000000)"

definition sydneyMidnight :: "int \<Rightarrow> int" where
  "sydneyMidnight n =
    (if sydneyOffset (n * oneDay - 36000000) = 36000000 then n * oneDay - 36000000
     else n * oneDay - 39600000)"

definition sydney :: LocalTime where
  "sydney =
    \<lparr>setHoursZero = (\<lambda>t. sydneyMidnight ((t + sydneyOffset t) div oneDay)),
     newDate = (\<lambda>y m d. sydneyMidnight (daysFromCivil y (m + 1) d))\<rparr>"

text \<open>
  The pair that the specification names for day \<open>d\<close> of the schedule: the items of the plan
  at the indices \<open>(d*2) mod N\<close> and \<open>(d*2+1) mod N\<close>, with the book named in the language.
\<close>

definition readingOfDay :: "int \<Rightarrow> Language \<Rightarrow> Reading \<times> Reading" where
  "readingOfDay d language =
    (let N = int (length readingPlan);
         pick = (\<lambda>i. \<lparr>reading_book = bookIn language (item_book (readingPlan ! nat i)),
                       reading_chapter = item_chapter (readingPlan ! nat i)\<rparr>)
     in (pick ((d * 2) mod N), pick ((d * 2 + 1) mod N)))"

section \<open>Records of the application (types.ts) and the local store (syncService.ts)\<close>

record DiaryEntry =
  repentance :: jsstring
  resolve :: jsstring
  dream :: jsstring

record SavedDiaryEntry =
  diary_id :: int
  diary_timestamp :: jsstring
  diary_content :: DiaryEntry

record SavedPlanEntry =
  plan_id :: int
  plan_timestamp :: jsstring
  plan_content :: jsstring

record ArchivedReading =
  ar_day :: int
  ar_dateSaved :: jsstring
  ar_readingReference :: jsstring
  ar_passage :: jsstring
  ar_meditationGuide :: jsstring
  ar_context :: jsstring
  ar_intention :: jsstring
  ar_contextImageUrl :: "jsstring option"

text \<open>\<^verbatim>\<open>export type MeditationStatus = 'good' | 'ok' | 'bad'\<close> and
  \<^verbatim>\<open>export type MeditationRecord = Record<number, MeditationStatus>\<close>\<close>

datatype MeditationStatus = Good | Ok | Bad

type_synonym MeditationRecord = "int \<rightharpoonup> MeditationStatus"

text \<open>\<^verbatim>\<open>interface CachedReadingData\<close> of BibleReading.tsx.\<close>

record CachedReadingData =
  c_passage :: jsstring
  c_meditationGuide :: jsstring
  c_context :: jsstring
  c_intention :: jsstring
  c_imagePrompt :: jsstring
  c_contextImageUrl :: "jsstring option"

text \<open>
  The browser's local storage, as far as the application uses it. Every item holds JSON
  text; the store keeps the value that text stands for, one field per family of keys:
  the saved diary lists, the diary drafts and the saved mission plans under their storage
  keys, the item \<^verbatim>\<open>'meditation-status'\<close>, the item \<^verbatim>\<open>'archived-readings'\<close> and the reading
  caches under their cache keys. An absent item is \<open>None\<close>. The objects keyed by day number
  are maps. A reading cache whose text the reader cannot use (\<^verbatim>\<open>JSON.parse\<close> or the first
  access to the parsed value throws) is \<open>Unparsable\<close>; an item \<^verbatim>\<open>'archived-readings'\<close> on
  which \<^verbatim>\<open>JSON.parse\<close> throws is \<open>Unreadable\<close>.

  \<^verbatim>\<open>setItem\<close> can throw (the quota); every function that writes takes the flag \<open>ok\<close>
  telling whether its write is accepted.
\<close>

datatype cacheItem = Cached CachedReadingData | Unparsable

datatype 'a item = Readable 'a | Unreadable

record LocalStorage =
  diaryItems :: "jsstring \<rightharpoonup> SavedDiaryEntry list"
  draftItems :: "jsstring \<rightharpoonup> DiaryEntry"
  missionItems :: "jsstring \<rightharpoonup> SavedPlanEntry list"
  meditationStatusItem :: "MeditationRecord option"
  archivedReadingsItem :: "(int \<rightharpoonup> ArchivedReading) item option"
  readingCacheItems :: "jsstring \<rightharpoonup> cacheItem"

datatype storageError = QuotaExceededError | SyntaxError

subsection \<open>Meditation status\<close>

text \<open>\<^verbatim>\<open>const data = getItem('meditation-status'); const status = data ? JSON.parse(data) : {}\<close>\<close>

definition getMeditationStatus :: "LocalStorage \<Rightarrow> MeditationRecord" where
  "getMeditationStatus ls = (case meditationStatusItem ls of None \<Rightarrow> Map.empty | Some m \<Rightarrow> m)"

definition saveMeditationStatus :: "bool \<Rightarrow> LocalStorage \<Rightarrow> MeditationRecord \<Rightarrow> storageError + LocalStorage" where
  "saveMeditationStatus ok ls status =
    (if ok then Inr (ls\<lparr>meditationStatusItem := Some status\<rparr>) else Inl QuotaExceededError)"

text \<open>
  \<^verbatim>\<open>const newStatus = { ...meditationStatus };
  if (newStatus[day] === status) { delete newStatus[day]; } else { newStatus[day] = status; }\<close>
\<close>

definition toggled :: "MeditationRecord \<Rightarrow> int \<Rightarrow> MeditationStatus \<Rightarrow> MeditationRecord" where
  "toggled meditationStatus day status =
    (if meditationStatus day = Some status then meditationStatus(day := None)
     else meditationStatus(day \<mapsto> status))"

text \<open>
  \<open>handleStatusChange\<close> of BibleReading.tsx on the component's state \<open>meditationStatus\<close> and
  the store: the new record becomes the state, then it is saved; a failed save is logged
  and leaves the state as set.
\<close>

definition handleStatusChange ::
  "bool \<Rightarrow> MeditationRecord \<times> LocalStorage \<Rightarrow> int \<Rightarrow> MeditationStatus \<Rightarrow> MeditationRecord \<times> LocalStorage" where
  "handleStatusChange ok st day status =
    (let newStatus = toggled (fst st) day status
     in case saveMeditationStatus ok (snd st) newStatus of
          Inr ls' \<Rightarrow> (newStatus, ls')
        | Inl e \<Rightarrow> (newStatus, snd st))"

text \<open>
  The state \<open>meditationStatus\<close> starts as the empty record (\<^verbatim>\<open>useState<MeditationRecord>({})\<close>).
  When the component is mounted, \<open>fetchInitialData\<close> calls \<open>getMeditationStatus\<close>, which
  reads the store at once and resolves 500 ms later; \<open>fetchInitialDataResolved status\<close> is
  what happens then, with \<open>status\<close> the record read at the mount:
  \<^verbatim>\<open>setMeditationStatus(status)\<close>.
\<close>

definition initialMeditationStatus :: MeditationRecord where
  "initialMeditationStatus = Map.empty"

definition fetchInitialDataResolved ::
  "MeditationRecord \<Rightarrow> MeditationRecord \<times> LocalStorage \<Rightarrow> MeditationRecord \<times> LocalStorage" where
  "fetchInitialDataResolved status st = (status, snd st)"

subsection \<open>Archived readings\<close>

text \<open>\<^verbatim>\<open>const data = getItem('archived-readings'); const readings = data ? JSON.parse(data) : {}\<close>.
  The item is read when the function is called; the promise resolves 500 ms later.\<close>

definition getArchivedReadings :: "LocalStorage \<Rightarrow> storageError + (int \<rightharpoonup> ArchivedReading)" where
  "getArchivedReadings ls =
    (case archivedReadingsItem ls of
       None \<Rightarrow> Inr Map.empty
     | Some (Readable readings) \<Rightarrow> Inr readings
     | Some Unreadable \<Rightarrow> Inl SyntaxError)"

text \<open>
  \<^verbatim>\<open>const allReadings = await getArchivedReadings();
  const updatedReadings = { ...allReadings, [day]: readingData };
  window.localStorage.setItem('archived-readings', JSON.stringify(updatedReadings));\<close>
  The function runs in two steps, 500 ms apart. At the call it reads the item. When the
  promise resolves, \<open>saveArchivedReadingResumed\<close> adds the record to the readings that were
  read and writes the result to the store as it is by then. In \<open>saveArchivedReading\<close>,
  \<open>ls0\<close> is the store at the call and \<open>ls1\<close> the store when the promise resolves; they are
  equal when nothing else wrote to the store in between. An unreadable item and a refused
  write reject the promise (\<open>Inl\<close>) and leave the store as it is.
\<close>

definition saveArchivedReadingResumed ::
  "bool \<Rightarrow> (int \<rightharpoonup> ArchivedReading) \<Rightarrow> int \<Rightarrow> ArchivedReading \<Rightarrow> LocalStorage
     \<Rightarrow> storageError + LocalStorage" where
  "saveArchivedReadingResumed ok allReadings day readingData ls1 =
    (let updatedReadings = allReadings(day \<mapsto> readingData)
     in if ok then Inr (ls1\<lparr>archivedReadingsItem := Some (Readable updatedReadings)\<rparr>)
        else Inl QuotaExceededError)"

definition saveArchivedReading ::
  "bool \<Rightarrow> LocalStorage \<Rightarrow> LocalStorage \<Rightarrow> int \<Rightarrow> ArchivedReading \<Rightarrow> storageError + LocalStorage" where
  "saveArchivedReading ok ls0 ls1 day readingData =
    (case getArchivedReadings ls0 of
       Inl e \<Rightarrow> Inl e
     | Inr allReadings \<Rightarrow> saveArchivedReadingResumed ok allReadings day readingData ls1)"

text \<open>The archived reading of a day in a store, \<open>None\<close> also when the item is unreadable.\<close>

definition archivedAt :: "LocalStorage \<Rightarrow> int \<Rightarrow> ArchivedReading option" where
  "archivedAt ls day = (case getArchivedReadings ls of Inr readings \<Rightarrow> readings day | Inl e \<Rightarrow> None)"

text \<open>A store with nothing in it, and an archived reading, used as concrete inputs below.\<close>

definition emptyStorage :: LocalStorage where
  "emptyStorage =
    \<lparr>diaryItems = Map.empty, draftItems = Map.empty, missionItems = Map.empty,
     meditationStatusItem = None,
     archivedReadingsItem = None, readingCacheItems = Map.empty\<rparr>"

definition sampleArchive :: "int \<Rightarrow> ArchivedReading" where
  "sampleArchive d =
    \<lparr>ar_day = d, ar_dateSaved = asc ''2024-11-03T01:02:03.000Z'',
     ar_readingReference = asc ''Galatians 1-2'', ar_passage = asc ''1 Paul, an apostle'',
     ar_meditationGuide = asc ''**Core Message**'', ar_context = asc ''Galatia'',
     ar_intention = asc ''freedom'', ar_contextImageUrl = None\<rparr>"

text \<open>A store whose meditation record holds \<open>Bad\<close> for day 1.\<close>

definition statusStore :: LocalStorage where
  "statusStore = emptyStorage\<lparr>meditationStatusItem := Some [1 \<mapsto> Bad]\<rparr>"

section \<open>Operations on strings\<close>

text \<open>\<^verbatim>\<open>s.includes(t)\<close>: \<open>t\<close> occurs in \<open>s\<close> as a contiguous run.\<close>

fun startsWith :: "jsstring \<Rightarrow> jsstring \<Rightarrow> bool" where
  "startsWith s [] = True"
| "startsWith [] (c # t) = False"
| "startsWith (a # s) (c # t) = (a = c \<and> startsWith s t)"

fun str_includes :: "jsstring \<Rightarrow> jsstring \<Rightarrow> bool" where
  "str_includes [] t = (t = [])"
| "str_includes (a # s) t = (startsWith (a # s) t \<or> str_includes s t)"

text \<open>\<^verbatim>\<open>s.trim()\<close> removes the white space and line terminators of ECMAScript at both ends.\<close>

definition isWhiteSpace :: "nat \<Rightarrow> bool" where
  "isWhiteSpace c = (c \<in> {9, 10, 11, 12, 13, 32, 160, 5760, 8232, 8233, 8239, 8287, 12288, 65279}
     \<or> (8192 \<le> c \<and> c \<le> 8202))"

definition trim :: "jsstring \<Rightarrow> jsstring" where
  "trim s = rev (dropWhile isWhiteSpace (rev (dropWhile isWhiteSpace s)))"

text \<open>A string is truthy when it is not empty; \<^verbatim>\<open>undefined\<close> and \<^verbatim>\<open>null\<close> are \<open>None\<close>.\<close>

definition falsy :: "jsstring option \<Rightarrow> bool" where
  "falsy v = (case v of None \<Rightarrow> True | Some s \<Rightarrow> s = [])"

section \<open>The generative model (geminiService.ts)\<close>

text \<open>
  A request to \<^verbatim>\<open>ai.models.generateContent\<close>: the model name, the text parts of the contents
  and the configuration. A part is either a string the code builds, or one of the long
  prompt templates of \<^verbatim>\<open>getPrompts\<close>, kept by its name, its language and the arguments
  spliced into it (strings and numbers).
\<close>

datatype targ = S jsstring | N int

datatype prompt = Lit jsstring | Tmpl string Language "targ list"

datatype config = NoConfig | ResponseModalityImage | ResponseJson "string list"

record request =
  model :: string
  contents :: "prompt list"
  config :: config

text \<open>
  What the code reads of a response: \<^verbatim>\<open>response.text\<close>,
  \<^verbatim>\<open>response.promptFeedback?.blockReason\<close> and, for each part of
  \<^verbatim>\<open>response.candidates?.[0]?.content?.parts\<close>, the data of its \<^verbatim>\<open>inlineData\<close> if it has one.
\<close>

record response =
  responseText :: "jsstring option"
  blockReason :: "jsstring option"
  candidateParts :: "jsstring option list"

text \<open>
  A thrown value is kept by what the code reads of it: the string \<^verbatim>\<open>JSON.stringify\<close>
  gives for it, and its \<^verbatim>\<open>message\<close> when it is an instance of \<^verbatim>\<open>Error\<close>. The message of an
  \<^verbatim>\<open>Error\<close> is not enumerable, so \<^verbatim>\<open>new Error(msg)\<close> is serialized as \<open>{}\<close>.
\<close>

datatype thrown = Thrown (stringified: jsstring) (messageOf: "jsstring option")

definition newError :: "jsstring \<Rightarrow> thrown" where
  "newError msg = Thrown (asc ''{}'') (Some msg)"

text \<open>A call returns a response or throws.\<close>

datatype outcome = Returned response | Threw thrown

text \<open>
  The code's effects on the outside are recorded in a trace: the calls of the model, in
  order, and the delays waited. The model service is a function of the trace so far and
  the request, so its answers may depend on everything that happened before.
\<close>

datatype event = Call request | Sleep nat

type_synonym trace = "event list"

type_synonym client = "trace \<Rightarrow> request \<Rightarrow> outcome"

text \<open>
  \<^verbatim>\<open>const apiKey = import.meta.env.VITE_GEMINI_API_KEY;
  if (!apiKey) { throw new Error('VITE_GEMINI_API_KEY environment variable is not set. ...'); }
  return new GoogleGenAI({ apiKey });\<close>
\<close>

record environment =
  apiKey :: "jsstring option"
  service :: client

definition getAiClient :: "environment \<Rightarrow> thrown + client" where
  "getAiClient env =
    (if falsy (apiKey env)
     then Inl (newError (asc (''VITE_GEMINI_API_KEY environment variable is not set. '' @
                              ''Please check your Vercel environment variables.'')))
     else Inr (service env))"

subsection \<open>One image-generation attempt: \<open>generateImage\<close>\<close>

definition MAX_RETRIES :: nat where
  "MAX_RETRIES = 3"

definition imageRequest :: "jsstring \<Rightarrow> request" where
  "imageRequest p =
    \<lparr>model = ''gemini-2.5-flash-image'', contents = [Lit p], config = ResponseModalityImage\<rparr>"

text \<open>\<^verbatim>\<open>candidate?.content?.parts?.find(part => part.inlineData)\<close>, then its data.\<close>

fun findInlineData :: "jsstring option list \<Rightarrow> jsstring option" where
  "findInlineData [] = None"
| "findInlineData (None # ps) = findInlineData ps"
| "findInlineData (Some d # ps) = Some d"

text \<open>What the \<^verbatim>\<open>try\<close> block returns for a response.\<close>

definition imageOf :: "response \<Rightarrow> jsstring option" where
  "imageOf r =
    (if \<not> falsy (blockReason r) then None
     else case findInlineData (candidateParts r) of
            Some d \<Rightarrow> Some (asc ''data:image/png;base64,'' @ d)
          | None \<Rightarrow> None)"

definition transientError :: jsstring where
  "transientError = asc ''Rpc failed due to xhr error''"

text \<open>
  The loop \<^verbatim>\<open>while (attempt < MAX_RETRIES)\<close>, with \<open>attempt\<close> the loop variable. In the
  \<^verbatim>\<open>catch\<close> block the counter is incremented first and the error is serialized
  (\<^verbatim>\<open>const errorMessage = JSON.stringify(error)\<close>); a transient error then either gives up
  (\<^verbatim>\<open>attempt >= MAX_RETRIES\<close>) or waits \<^verbatim>\<open>attempt * 1000\<close> ms and goes round again.
\<close>

function generateImageLoop :: "client \<Rightarrow> jsstring \<Rightarrow> nat \<Rightarrow> trace \<Rightarrow> jsstring option \<times> trace" where
  "generateImageLoop ai p attempt tr =
    (if attempt < MAX_RETRIES then
       (case ai tr (imageRequest p) of
          Returned r \<Rightarrow> (imageOf r, tr @ [Call (imageRequest p)])
        | Threw error \<Rightarrow>
            (if str_includes (stringified error) transientError then
               (if Suc attempt \<ge> MAX_RETRIES then (None, tr @ [Call (imageRequest p)])
                else generateImageLoop ai p (Suc attempt)
                       (tr @ [Call (imageRequest p), Sleep (Suc attempt * 1000)]))
             else (None, tr @ [Call (imageRequest p)])))
     else (None, tr))"
  by pat_completeness auto
termination
  by (relation "measure (\<lambda>(ai, p, attempt, tr). MAX_RETRIES - attempt)") auto

declare generateImageLoop.simps [simp del]

definition generateImage :: "client \<Rightarrow> jsstring \<Rightarrow> trace \<Rightarrow> jsstring option \<times> trace" where
  "generateImage ai p tr = generateImageLoop ai p 0 tr"

subsection \<open>The prompts of the image chain\<close>

definition detailedPromptPrefix_en :: jsstring where
  "detailedPromptPrefix_en = asc
    (''Create a symbolic and evocative image in the style of a classical oil '' @
     ''painting with dramatic chiaroscuro lighting. The scene should be highly '' @
     ''symbolic, avoiding any literal depictions of people or divine figures. Focus '' @
     ''on objects, nature, and light to convey the core theme. The subject is: '')"

definition detailedPromptPrefix_ko :: jsstring where
  "detailedPromptPrefix_ko =
    [53364, 47000, 49885, 32, 50976, 54868, 32, 49828, 53440, 51068, 47196, 44, 32, 44537,
     51201, 51064, 32, 47749, 50516, 32, 45824, 48708, 40, 53412, 50500, 47196, 49828, 53216,
     47196, 41, 32, 51312, 47749, 51012, 32, 49324, 50857, 54616, 50668, 32, 49345, 51669,
     51201, 51060, 44256, 32, 44048, 49457, 51201, 51064, 32, 51060, 48120, 51648, 47484, 32,
     47564, 46308, 50612, 51452, 49464, 50836, 46, 32, 51109, 47732, 51008, 32, 47588, 50864,
     32, 49345, 51669, 51201, 51060, 50612, 50556, 32, 54616, 47728, 44, 32, 49324, 46988,
     51060, 45208, 32, 49888, 51201, 51064, 32, 51064, 47932, 51032, 32, 51649, 51217, 51201,
     51064, 32, 47896, 49324, 45716, 32, 54588, 54644, 50556, 32, 54633, 45768, 45796, 46,
     32, 49324, 47932, 44, 32, 51088, 50672, 44, 32, 48731, 50640, 32, 52488, 51216, 51012,
     32, 47582, 52656, 32, 54645, 49900, 32, 51452, 51228, 47484, 32, 51204, 45804, 54644,
     51452, 49464, 50836, 46, 32, 51452, 51228, 45716, 32, 45796, 51020, 44284, 32, 44057,
     49845, 45768, 45796, 58, 32]"

definition fallbackPromptGenerator_en_head :: jsstring where
  "fallbackPromptGenerator_en_head = asc
    (''Based on the following theological text, create a short, simple, '' @
     ''safe-for-work image prompt for a symbolic oil painting. The prompt must NOT '' @
     ''include people, faces, or religious figures. Focus on objects and nature. '' @
     ''Text: '')"

definition fallbackPromptGenerator_ko_head :: jsstring where
  "fallbackPromptGenerator_ko_head =
    [45796, 51020, 32, 49888, 54617, 51201, 51064, 32, 44544, 51012, 32, 48148, 53461, 51004,
     47196, 44, 32, 49345, 51669, 51201, 51064, 32, 50976, 54868, 47484, 32, 50948, 54620,
     32, 51687, 44256, 44, 32, 44036, 45800, 54616, 47728, 44, 32, 50504, 51204, 54620, 32,
     51060, 48120, 51648, 32, 54532, 47212, 54532, 53944, 47484, 32, 47564, 46308, 50612, 32,
     51452, 49464, 50836, 46, 32, 54532, 47212, 54532, 53944, 50640, 45716, 32, 49324, 46988,
     44, 32, 50620, 44404, 44, 32, 46608, 45716, 32, 51333, 44368, 51201, 32, 51064, 47932,
     51060, 32, 54252, 54632, 46104, 50612, 49436, 45716, 32, 50504, 32, 46121, 45768, 45796,
     46, 32, 49324, 47932, 44284, 32, 51088, 50672, 50640, 32, 52488, 51216, 51012, 32,
     47582, 52656, 51452, 49464, 50836, 46, 32, 44544, 58, 32]"

definition finalPromptPrefix_en :: jsstring where
  "finalPromptPrefix_en = asc
    (''A symbolic oil painting of: '')"

definition finalPromptPrefix_ko :: jsstring where
  "finalPromptPrefix_ko =
    [49345, 51669, 51201, 51064, 32, 50976, 54868, 58, 32]"

definition imageFallback_en :: jsstring where
  "imageFallback_en = asc
    (''A peaceful landscape in the ancient Middle East. A realistic oil painting of '' @
     ''a hill with olive trees and a stone path.'')"

definition imageFallback_ko :: jsstring where
  "imageFallback_ko =
    [44256, 45824, 32, 51473, 46041, 51032, 32, 54217, 54868, 47196, 50868, 32, 54413, 44221,
     46, 32, 50732, 47532, 48652, 32, 45208, 47924, 50752, 32, 46028, 44600, 51060, 32,
     51080, 45716, 32, 50616, 45909, 51032, 32, 49324, 49892, 51201, 51064, 32, 50976, 54868,
     46]"

text \<open>The two generator prompts end with the fallback context between double quotes
  (code unit 34).\<close>

definition fallbackPromptGenerator :: "Language \<Rightarrow> jsstring \<Rightarrow> jsstring" where
  "fallbackPromptGenerator language fallbackContext =
    (if language = En then fallbackPromptGenerator_en_head @ [34] @ fallbackContext @ [34]
     else fallbackPromptGenerator_ko_head @ [34] @ fallbackContext @ [34])"

definition firstAttemptPrompt :: "Language \<Rightarrow> jsstring \<Rightarrow> jsstring" where
  "firstAttemptPrompt language initialPrompt =
    (if language = En then detailedPromptPrefix_en @ initialPrompt
     else detailedPromptPrefix_ko @ initialPrompt)"

definition finalPrompt :: "Language \<Rightarrow> jsstring \<Rightarrow> jsstring" where
  "finalPrompt language newPrompt =
    (if language = En then finalPromptPrefix_en @ newPrompt else finalPromptPrefix_ko @ newPrompt)"

text \<open>\<^verbatim>\<open>getPrompts(language, '', 0, 0).imageFallback\<close>\<close>

definition imageFallback :: "Language \<Rightarrow> jsstring" where
  "imageFallback language = (case language of Ko \<Rightarrow> imageFallback_ko | En \<Rightarrow> imageFallback_en)"

definition promptGenRequest :: "Language \<Rightarrow> jsstring \<Rightarrow> request" where
  "promptGenRequest language fallbackContext =
    \<lparr>model = ''gemini-2.5-flash'',
     contents = [Lit (fallbackPromptGenerator language fallbackContext)],
     config = NoConfig\<rparr>"

subsection \<open>The fallback chain: \<open>generateContextImage\<close>\<close>

text \<open>
  The three steps of the source in their order. The variable \<^verbatim>\<open>imageUrl\<close> is assigned up to
  three times; each \<^verbatim>\<open>if (!imageUrl)\<close> tests the value of the step before. A failure of the
  prompt-generating call, by a throw or by an empty prompt, leaves \<^verbatim>\<open>imageUrl\<close> as it was.
\<close>

definition generateContextImage ::
  "environment \<Rightarrow> jsstring \<Rightarrow> jsstring \<Rightarrow> Language \<Rightarrow> trace \<Rightarrow> (thrown + jsstring option) \<times> trace" where
  "generateContextImage env initialPrompt fallbackContext language tr =
    (case getAiClient env of
       Inl e \<Rightarrow> (Inl e, tr)
     | Inr ai \<Rightarrow>
        (let (imageUrl1, tr1) = generateImage ai (firstAttemptPrompt language initialPrompt) tr;
             (imageUrl2, tr2) =
               (if falsy imageUrl1 then
                  (case ai tr1 (promptGenRequest language fallbackContext) of
                     Returned promptGenResponse \<Rightarrow>
                       (let newPrompt = map_option trim (responseText promptGenResponse);
                            tr' = tr1 @ [Call (promptGenRequest language fallbackContext)]
                        in case newPrompt of
                             Some np \<Rightarrow> (if np \<noteq> [] then generateImage ai (finalPrompt language np) tr'
                                        else (imageUrl1, tr'))
                           | None \<Rightarrow> (imageUrl1, tr'))
                   | Threw e \<Rightarrow> (imageUrl1, tr1 @ [Call (promptGenRequest language fallbackContext)]))
                else (imageUrl1, tr1));
             (imageUrl3, tr3) =
               (if falsy imageUrl2 then generateImage ai (imageFallback language) tr2
                else (imageUrl2, tr2))
         in (Inr imageUrl3, tr3)))"

subsection \<open>Notions used to state the behaviour of the image chain\<close>

text \<open>An outcome is transient when it is a throw whose serialization contains the marker.\<close>

definition isTransient :: "outcome \<Rightarrow> bool" where
  "isTransient out =
    (case out of Returned r \<Rightarrow> False | Threw e \<Rightarrow> str_includes (stringified e) transientError)"

text \<open>The result of an attempt ended by a non-transient outcome: the image of a response
  that has one, \<open>None\<close> (the \<^verbatim>\<open>null\<close> of the source) for a thrown error, a blocked prompt or
  a response without image data.\<close>

definition settled :: "outcome \<Rightarrow> jsstring option" where
  "settled out = (case out of Returned r \<Rightarrow> imageOf r | Threw e \<Rightarrow> None)"

fun callsOf :: "trace \<Rightarrow> request list" where
  "callsOf [] = []"
| "callsOf (Call rq # tr) = rq # callsOf tr"
| "callsOf (Sleep n # tr) = callsOf tr"



text \<open>The prompt derived from the context by the second call of the text model: the
  trimmed text of the response when the call returns and that text is not empty.\<close>

definition derivedPrompt :: "client \<Rightarrow> Language \<Rightarrow> jsstring \<Rightarrow> trace \<Rightarrow> jsstring option \<times> trace" where
  "derivedPrompt ai language fallbackContext tr =
    (case ai tr (promptGenRequest language fallbackContext) of
       Returned r \<Rightarrow>
         (case responseText r of
            Some t \<Rightarrow> if trim t = [] then None else Some (trim t)
          | None \<Rightarrow> None)
     | Threw e \<Rightarrow> None,
     tr @ [Call (promptGenRequest language fallbackContext)])"

text \<open>Services and environments used as concrete inputs below.\<close>

definition alwaysTransient :: client where
  "alwaysTransient tr rq = Threw (Thrown (asc ''{message: Rpc failed due to xhr error}'') None)"

definition noImage :: response where
  "noImage = \<lparr>responseText = None, blockReason = None, candidateParts = []\<rparr>"

text \<open>A service whose text model answers \<open>" a lamp "\<close> and whose image model gives an image
  from its second call on.\<close>

definition lampService :: client where
  "lampService tr rq =
    (if model rq = ''gemini-2.5-flash''
     then Returned (noImage\<lparr>responseText := Some (asc '' a lamp '')\<rparr>)
     else if tr = [] then Returned noImage
     else Returned (noImage\<lparr>candidateParts := [None, Some (asc ''iVBORw0KGgo='')]\<rparr>))"

definition lampEnv :: environment where
  "lampEnv = \<lparr>apiKey = Some (asc ''k-1''), service = lampService\<rparr>"

definition noKeyEnv :: environment where
  "noKeyEnv = \<lparr>apiKey = None, service = lampService\<rparr>"

section \<open>The text generators (geminiService.ts)\<close>

record Song =
  title :: jsstring
  artist :: jsstring

record StoryKeywords =
  positive :: "jsstring list"
  sin :: "jsstring list"
  hope :: "jsstring list"

text \<open>The value of \<^verbatim>\<open>generateComprehensiveReadingContent\<close>, as its declared type has it.\<close>

record ComprehensiveData =
  g_passage :: jsstring
  g_meditationGuide :: jsstring
  g_context :: jsstring
  g_intention :: jsstring
  g_imagePrompt :: jsstring

text \<open>
  \<^verbatim>\<open>JSON.parse\<close> is a function of the text. It is a parameter, read at the types the code
  declares for its results: \<open>parseSongs t\<close> is \<^verbatim>\<open>JSON.parse(t).songs\<close>, with \<open>None\<close> for a
  falsy value; \<open>parseKeywords t\<close> and \<open>parseReading t\<close> are \<^verbatim>\<open>JSON.parse(t)\<close>, with \<open>None\<close> for
  \<^verbatim>\<open>null\<close>. \<open>Inl\<close> is the error thrown on a text that cannot be read so.
\<close>

record jsonParser =
  parseSongs :: "jsstring \<Rightarrow> thrown + Song list option"
  parseKeywords :: "jsstring \<Rightarrow> thrown + StoryKeywords option"
  parseReading :: "jsstring \<Rightarrow> thrown + ComprehensiveData option"

text \<open>\<^verbatim>\<open>response && typeof response.text === 'string' && response.text.trim()\<close>\<close>

definition hasText :: "response \<Rightarrow> bool" where
  "hasText r = (case responseText r of None \<Rightarrow> False | Some t \<Rightarrow> trim t \<noteq> [])"

subsection \<open>The localized error strings of \<open>getPrompts\<close>\<close>










subsection \<open>The requests\<close>






definition comprehensiveReadingRequest :: "Language \<Rightarrow> jsstring \<Rightarrow> int \<Rightarrow> int \<Rightarrow> request" where
  "comprehensiveReadingRequest language bookName chapter1 chapter2 =
    \<lparr>model = ''gemini-2.5-pro'',
     contents = [Tmpl ''comprehensiveReading'' language [S bookName, N chapter1, N chapter2]],
     config = ResponseJson [''passage'', ''meditationGuide'', ''context'', ''intention'',
                            ''imagePrompt'']\<rparr>"

subsection \<open>The generators\<close>






text \<open>An environment whose model always throws, used as a concrete input below.\<close>

definition failingEnv :: environment where
  "failingEnv = \<lparr>apiKey = Some (asc ''k-1''), service = alwaysTransient\<rparr>"

definition sampleData :: ComprehensiveData where
  "sampleData =
    \<lparr>g_passage = asc ''1 Paul, an apostle'', g_meditationGuide = asc ''**Core Message**'',
     g_context = asc ''Galatia'', g_intention = asc ''hope'',
     g_imagePrompt = asc ''dawn''\<rparr>"


section \<open>Loading the daily reading (geminiService.ts, BibleReading.tsx)\<close>

text \<open>
  \<open>generateComprehensiveReadingContent\<close>: everything is inside the \<^verbatim>\<open>try\<close>, and the \<^verbatim>\<open>catch\<close>
  throws the error again. A response with text gives \<^verbatim>\<open>JSON.parse(response.text)\<close>; any
  other response throws a new error whose message names the block reason if there is one.
\<close>

definition emptyResponseMessage :: "response \<Rightarrow> jsstring" where
  "emptyResponseMessage r =
    (case blockReason r of
       Some b \<Rightarrow> if b \<noteq> [] then asc ''Content generation was blocked due to: '' @ b @ asc ''.''
                 else asc ''API response was empty or did not contain text content.''
     | None \<Rightarrow> asc ''API response was empty or did not contain text content.'')"

definition generateComprehensiveReadingContent ::
  "environment \<Rightarrow> jsonParser \<Rightarrow> jsstring \<Rightarrow> int \<Rightarrow> int \<Rightarrow> Language \<Rightarrow> trace
     \<Rightarrow> (thrown + ComprehensiveData option) \<times> trace" where
  "generateComprehensiveReadingContent env js bookName chapter1 chapter2 language tr =
    (case getAiClient env of
       Inl e \<Rightarrow> (Inl e, tr)
     | Inr ai \<Rightarrow>
        (case ai tr (comprehensiveReadingRequest language bookName chapter1 chapter2) of
           Returned r \<Rightarrow>
             (if hasText r then
                (case responseText r of
                   Some t \<Rightarrow> parseReading js t
                 | None \<Rightarrow> Inl (newError (emptyResponseMessage r)))
              else Inl (newError (emptyResponseMessage r)))
         | Threw error \<Rightarrow> Inl error,
         tr @ [Call (comprehensiveReadingRequest language bookName chapter1 chapter2)]))"

subsection \<open>The state of the reading component\<close>

text \<open>
  The state variables of \<open>BibleReading\<close> that \<open>fetchContent\<close> sets. \<open>loadedPassage\<close> is the
  passage handed to \<^verbatim>\<open>onPassageLoaded\<close>; \<open>viewError\<close> holds the key of the translated
  message.
\<close>

record ReadingView =
  passage :: jsstring
  passageIntention :: jsstring
  meditationGuide :: jsstring
  passageContext :: jsstring
  contextImageUrl :: "jsstring option"
  isLoading :: bool
  isImageLoading :: bool
  viewError :: "string option"
  loadedPassage :: jsstring

text \<open>The state of the component when it is mounted.\<close>

definition initialView :: ReadingView where
  "initialView =
    \<lparr>passage = [], passageIntention = [], meditationGuide = [], passageContext = [],
     contextImageUrl = None, isLoading = True, isImageLoading = False, viewError = None,
     loadedPassage = []\<rparr>"

text \<open>
  \<^verbatim>\<open>const cacheKey = `reading-cache-${storageKeyDate}-${language}`\<close>, where \<open>storageKeyDate\<close> is
  \<^verbatim>\<open>new Date().toISOString().split('T')[0]\<close>, the date as \<open>YYYY-MM-DD\<close>.
\<close>

definition languageCode :: "Language \<Rightarrow> jsstring" where
  "languageCode language = (case language of Ko \<Rightarrow> asc ''ko'' | En \<Rightarrow> asc ''en'')"

definition cacheKey :: "jsstring \<Rightarrow> Language \<Rightarrow> jsstring" where
  "cacheKey storageKeyDate language =
    asc ''reading-cache-'' @ storageKeyDate @ asc ''-'' @ languageCode language"

text \<open>
  \<open>fetchImageAndUpdateState\<close>: the image chain runs and its result becomes the image of
  the view; if it throws, the error is logged and the image stays as it was.
\<close>

definition fetchImageAndUpdateState ::
  "environment \<Rightarrow> jsstring \<Rightarrow> jsstring \<Rightarrow> Language \<Rightarrow> ReadingView \<times> trace \<Rightarrow> ReadingView \<times> trace" where
  "fetchImageAndUpdateState env prompt fallback language s =
    (let st = (fst s)\<lparr>isImageLoading := True\<rparr>
     in case generateContextImage env prompt fallback language (snd s) of
          (Inr imageUrl, tr') \<Rightarrow> (st\<lparr>contextImageUrl := imageUrl, isImageLoading := False\<rparr>, tr')
        | (Inl e, tr') \<Rightarrow> (st\<lparr>isImageLoading := False\<rparr>, tr'))"

text \<open>\<^verbatim>\<open>const errorMessage = err instanceof Error ? err.message : JSON.stringify(err)\<close>, then the
  choice of the message shown.\<close>

definition errorText :: "thrown \<Rightarrow> jsstring" where
  "errorText e = (case messageOf e of Some m \<Rightarrow> m | None \<Rightarrow> stringified e)"

definition errorKey :: "thrown \<Rightarrow> string" where
  "errorKey e =
    (if str_includes (errorText e) (asc ''429'') \<or> str_includes (errorText e) (asc ''RESOURCE_EXHAUSTED'')
     then ''apiQuotaExceeded'' else ''contentError'')"

text \<open>
  The second half of \<open>fetchContent\<close>, "2. If no cache, fetch everything from API", with the
  cache key \<open>key\<close>. The text is generated and shown, the image is fetched if there is an
  image prompt, and the text is written to the cache with \<^verbatim>\<open>contextImageUrl: null\<close>; a
  refused write is logged. Every error before that ends in the \<^verbatim>\<open>catch\<close>, which shows a
  message. The image is fetched without being awaited; it changes the view and the trace
  only, and the write changes the store only, so the order between them does not show.
\<close>

definition fetchFromApi ::
  "environment \<Rightarrow> jsonParser \<Rightarrow> bool \<Rightarrow> jsstring \<Rightarrow> Reading \<times> Reading \<Rightarrow> Language
     \<Rightarrow> ReadingView \<times> LocalStorage \<times> trace \<Rightarrow> ReadingView \<times> LocalStorage \<times> trace" where
  "fetchFromApi env js ok key reading language s =
    (let st0 = (fst s)\<lparr>isLoading := True, viewError := None, contextImageUrl := None\<rparr>;
         ls = fst (snd s);
         failed = (\<lambda>err tr1. (st0\<lparr>viewError := Some (errorKey err), isLoading := False,
                                    isImageLoading := False\<rparr>, ls, tr1))
     in case generateComprehensiveReadingContent env js (reading_book (fst reading))
               (reading_chapter (fst reading)) (reading_chapter (snd reading)) language (snd (snd s)) of
          (Inr (Some comprehensiveData), tr1) \<Rightarrow>
            (let st1 = st0\<lparr>passage := g_passage comprehensiveData,
                           loadedPassage := g_passage comprehensiveData,
                           meditationGuide := g_meditationGuide comprehensiveData,
                           passageContext := g_context comprehensiveData,
                           passageIntention := g_intention comprehensiveData,
                           isLoading := False\<rparr>;
                 shown = (if g_imagePrompt comprehensiveData \<noteq> []
                          then fetchImageAndUpdateState env (g_imagePrompt comprehensiveData)
                                 (g_intention comprehensiveData) language (st1, tr1)
                          else (st1\<lparr>isImageLoading := False\<rparr>, tr1));
                 dataToCache = \<lparr>c_passage = g_passage comprehensiveData,
                                c_meditationGuide = g_meditationGuide comprehensiveData,
                                c_context = g_context comprehensiveData,
                                c_intention = g_intention comprehensiveData,
                                c_imagePrompt = g_imagePrompt comprehensiveData,
                                c_contextImageUrl = None\<rparr>
             in (fst shown,
                 if ok then ls\<lparr>readingCacheItems := (readingCacheItems ls)(key \<mapsto> Cached dataToCache)\<rparr>
                 else ls,
                 snd shown))
        | (Inr None, tr1) \<Rightarrow> failed (newError (asc ''Failed to get data from API.'')) tr1
        | (Inl err, tr1) \<Rightarrow> failed err tr1)"

text \<open>
  \<open>fetchContent\<close>. The guard \<^verbatim>\<open>if (!reading || reading.length < 2) return\<close> never fires for
  a value of the declared type \<^verbatim>\<open>[Reading, Reading]\<close>, a pair here. A cache item that can
  be read is shown and the image is fetched from its image prompt, if it has one; an item
  that cannot be read is removed and the text is fetched from the API, as when there is
  no item.
\<close>

definition fetchContent ::
  "environment \<Rightarrow> jsonParser \<Rightarrow> bool \<Rightarrow> jsstring \<Rightarrow> Reading \<times> Reading \<Rightarrow> Language
     \<Rightarrow> ReadingView \<times> LocalStorage \<times> trace \<Rightarrow> ReadingView \<times> LocalStorage \<times> trace" where
  "fetchContent env js ok storageKeyDate reading language s =
    (let st = fst s; ls = fst (snd s); tr = snd (snd s);
         key = cacheKey storageKeyDate language
     in case readingCacheItems ls key of
          Some (Cached cachedData) \<Rightarrow>
            (let st1 = st\<lparr>passage := c_passage cachedData,
                          loadedPassage := c_passage cachedData,
                          meditationGuide := c_meditationGuide cachedData,
                          passageContext := c_context cachedData,
                          passageIntention := c_intention cachedData,
                          isLoading := False\<rparr>;
                 shown = (if c_imagePrompt cachedData \<noteq> []
                          then fetchImageAndUpdateState env (c_imagePrompt cachedData)
                                 (c_intention cachedData) language (st1, tr)
                          else (st1\<lparr>isImageLoading := False\<rparr>, tr))
             in (fst shown, ls, snd shown))
        | Some Unparsable \<Rightarrow>
            fetchFromApi env js ok key reading language
              (st, ls\<lparr>readingCacheItems := (readingCacheItems ls)(key := None)\<rparr>, tr)
        | None \<Rightarrow> fetchFromApi env js ok key reading language (st, ls, tr))"

text \<open>Concrete inputs used below: a cached reading, and a store holding it for
  3 November 2024 in English.\<close>

definition sampleCache :: "jsstring \<Rightarrow> CachedReadingData" where
  "sampleCache imagePrompt =
    \<lparr>c_passage = g_passage sampleData, c_meditationGuide = g_meditationGuide sampleData,
     c_context = g_context sampleData, c_intention = g_intention sampleData,
     c_imagePrompt = imagePrompt, c_contextImageUrl = None\<rparr>"

definition cachedStore :: "jsstring \<Rightarrow> LocalStorage" where
  "cachedStore imagePrompt =
    emptyStorage\<lparr>readingCacheItems := [cacheKey (asc ''2024-11-03'') En \<mapsto> Cached (sampleCache imagePrompt)]\<rparr>"

definition sampleReading :: "Reading \<times> Reading" where
  "sampleReading =
    (\<lparr>reading_book = asc ''Galatians'', reading_chapter = 1\<rparr>,
     \<lparr>reading_book = asc ''Galatians'', reading_chapter = 2\<rparr>)"

text \<open>
  The JSON text of \<open>sampleData\<close>, by its code units (34 is the double quote):
  an object with the members \<open>passage\<close>, \<open>meditationGuide\<close>, \<open>context\<close>, \<open>intention\<close> and
  \<open>imagePrompt\<close>, in this order and without white space. \<open>plainJson\<close> is the same text with
  the empty string as \<open>imagePrompt\<close>, the JSON text of \<open>plainData\<close>. \<open>readingParser\<close> reads
  these two texts as \<^verbatim>\<open>JSON.parse\<close> does; it is used on no other text below, and refuses
  every other text.
\<close>

definition sampleJson :: jsstring where
  "sampleJson =
    [123, 34, 112, 97, 115, 115, 97, 103, 101, 34, 58, 34, 49, 32, 80, 97, 117, 108, 44, 32,
     97, 110, 32, 97, 112, 111, 115, 116, 108, 101, 34, 44, 34, 109, 101, 100, 105, 116, 97,
     116, 105, 111, 110, 71, 117, 105, 100, 101, 34, 58, 34, 42, 42, 67, 111, 114, 101, 32,
     77, 101, 115, 115, 97, 103, 101, 42, 42, 34, 44, 34, 99, 111, 110, 116, 101, 120, 116,
     34, 58, 34, 71, 97, 108, 97, 116, 105, 97, 34, 44, 34, 105, 110, 116, 101, 110, 116,
     105, 111, 110, 34, 58, 34, 104, 111, 112, 101, 34, 44, 34, 105, 109, 97, 103, 101, 80,
     114, 111, 109, 112, 116, 34, 58, 34, 100, 97, 119, 110, 34, 125]"

definition plainJson :: jsstring where
  "plainJson =
    [123, 34, 112, 97, 115, 115, 97, 103, 101, 34, 58, 34, 49, 32, 80, 97, 117, 108, 44, 32,
     97, 110, 32, 97, 112, 111, 115, 116, 108, 101, 34, 44, 34, 109, 101, 100, 105, 116, 97,
     116, 105, 111, 110, 71, 117, 105, 100, 101, 34, 58, 34, 42, 42, 67, 111, 114, 101, 32,
     77, 101, 115, 115, 97, 103, 101, 42, 42, 34, 44, 34, 99, 111, 110, 116, 101, 120, 116,
     34, 58, 34, 71, 97, 108, 97, 116, 105, 97, 34, 44, 34, 105, 110, 116, 101, 110, 116,
     105, 111, 110, 34, 58, 34, 104, 111, 112, 101, 34, 44, 34, 105, 109, 97, 103, 101, 80,
     114, 111, 109, 112, 116, 34, 58, 34, 34, 125]"

definition plainData :: ComprehensiveData where
  "plainData = sampleData\<lparr>g_imagePrompt := []\<rparr>"

definition readingParser :: jsonParser where
  "readingParser =
    \<lparr>parseSongs = (\<lambda>t. Inl (Thrown (asc ''{}'') (Some (asc ''Unexpected token'')))),
     parseKeywords = (\<lambda>t. Inl (Thrown (asc ''{}'') (Some (asc ''Unexpected token'')))),
     parseReading = (\<lambda>t. if t = sampleJson then Inr (Some sampleData)
                          else if t = plainJson then Inr (Some plainData)
                          else Inl (Thrown (asc ''{}'') (Some (asc ''Unexpected token''))))\<rparr>"

text \<open>A service that answers every text request with the text \<open>sampleJson\<close> and every image
  request with an image.\<close>

definition fullService :: client where
  "fullService tr rq =
    (if model rq = ''gemini-2.5-flash-image''
     then Returned (noImage\<lparr>candidateParts := [Some (asc ''iVBORw0KGgo='')]\<rparr>)
     else Returned (noImage\<lparr>responseText := Some sampleJson\<rparr>))"

definition fullEnv :: environment where
  "fullEnv = \<lparr>apiKey = Some (asc ''k-1''), service = fullService\<rparr>"

text \<open>A service that answers every text request with the text \<open>plainJson\<close>, whose image
  prompt is empty, and every image request with an image.\<close>

definition plainService :: client where
  "plainService tr rq =
    (if model rq = ''gemini-2.5-flash-image''
     then Returned (noImage\<lparr>candidateParts := [Some (asc ''iVBORw0KGgo='')]\<rparr>)
     else Returned (noImage\<lparr>responseText := Some plainJson\<rparr>))"

definition plainEnv :: environment where
  "plainEnv = \<lparr>apiKey = Some (asc ''k-1''), service = plainService\<rparr>"

text \<open>No call of a trace is a request to the image model.\<close>

definition noImageCalls :: "trace \<Rightarrow> bool" where
  "noImageCalls new = list_all (\<lambda>rq. model rq \<noteq> ''gemini-2.5-flash-image'') (callsOf new)"

text \<open>The record that \<open>fetchContent\<close> caches for generated content.\<close>

definition cachedForm :: "ComprehensiveData \<Rightarrow> CachedReadingData" where
  "cachedForm g =
    \<lparr>c_passage = g_passage g, c_meditationGuide = g_meditationGuide g,
     c_context = g_context g, c_intention = g_intention g,
     c_imagePrompt = g_imagePrompt g, c_contextImageUrl = None\<rparr>"


section \<open>The faith diary (FaithDiary.tsx, syncService.ts)\<close>

text \<open>\<^verbatim>\<open>const data = getItem(storageKey); const entries = data ? JSON.parse(data) : []\<close>.
  The value is read when the function is called; the promise resolves 500 ms later.\<close>

definition getDiaryEntries :: "LocalStorage \<Rightarrow> jsstring \<Rightarrow> SavedDiaryEntry list" where
  "getDiaryEntries ls storageKey = (case diaryItems ls storageKey of None \<Rightarrow> [] | Some es \<Rightarrow> es)"

definition saveDiaryEntries ::
  "bool \<Rightarrow> LocalStorage \<Rightarrow> jsstring \<Rightarrow> SavedDiaryEntry list \<Rightarrow> storageError + LocalStorage" where
  "saveDiaryEntries ok ls storageKey entries =
    (if ok then Inr (ls\<lparr>diaryItems := (diaryItems ls)(storageKey \<mapsto> entries)\<rparr>)
     else Inl QuotaExceededError)"

text \<open>
  The state of the component: the draft \<open>currentEntry\<close>, the list \<open>savedEntries\<close>, the flag
  \<open>isSyncing\<close>, and \<open>pendingEntries\<close>, the list that a call of \<open>getDiaryEntries\<close> has read
  and not yet delivered.
\<close>

record DiaryView =
  currentEntry :: DiaryEntry
  savedEntries :: "SavedDiaryEntry list"
  isSyncing :: bool
  pendingEntries :: "SavedDiaryEntry list option"

definition emptyEntry :: DiaryEntry where
  "emptyEntry = \<lparr>repentance = [], resolve = [], dream = []\<rparr>"

definition currentKey :: "jsstring \<Rightarrow> jsstring" where
  "currentKey storageKey = storageKey @ asc ''-current''"

definition savedKey :: "jsstring \<Rightarrow> jsstring" where
  "savedKey storageKey = storageKey @ asc ''-saved''"

text \<open>
  Mounting the component: the draft comes from the store (\<open>useLocalStorage\<close>), the saved
  list starts empty, and the effect calls \<open>fetchEntries\<close>, which sets \<open>isSyncing\<close> and reads
  the saved list from the store.
\<close>

definition mountDiary :: "jsstring \<Rightarrow> LocalStorage \<Rightarrow> DiaryView" where
  "mountDiary storageKey ls =
    \<lparr>currentEntry = (case draftItems ls (currentKey storageKey) of
                       Some item \<Rightarrow> item | None \<Rightarrow> emptyEntry),
     savedEntries = [],
     isSyncing = True,
     pendingEntries = Some (getDiaryEntries ls (savedKey storageKey))\<rparr>"

text \<open>The promise of \<open>getDiaryEntries\<close> resolves: \<^verbatim>\<open>setSavedEntries(entries)\<close>, then
  \<^verbatim>\<open>setIsSyncing(false)\<close>.\<close>

definition fetchEntriesResolved :: "DiaryView \<Rightarrow> DiaryView" where
  "fetchEntriesResolved v =
    (case pendingEntries v of
       Some entries \<Rightarrow> v\<lparr>savedEntries := entries, isSyncing := False, pendingEntries := None\<rparr>
     | None \<Rightarrow> v)"

text \<open>\<open>setCurrentEntry\<close> of \<open>useLocalStorage\<close>: the state is set, then the draft is written;
  a refused write is logged.\<close>

definition setCurrentEntry ::
  "bool \<Rightarrow> jsstring \<Rightarrow> DiaryEntry \<Rightarrow> DiaryView \<times> LocalStorage \<Rightarrow> DiaryView \<times> LocalStorage" where
  "setCurrentEntry ok storageKey entry s =
    ((fst s)\<lparr>currentEntry := entry\<rparr>,
     if ok then (snd s)\<lparr>draftItems := (draftItems (snd s))(currentKey storageKey \<mapsto> entry)\<rparr>
     else snd s)"

datatype DiaryField = Repentance | Resolve | Dream

definition handleChange ::
  "bool \<Rightarrow> jsstring \<Rightarrow> DiaryField \<Rightarrow> jsstring \<Rightarrow> DiaryView \<times> LocalStorage \<Rightarrow> DiaryView \<times> LocalStorage" where
  "handleChange ok storageKey field v s =
    setCurrentEntry ok storageKey
      (case field of
         Repentance \<Rightarrow> (currentEntry (fst s))\<lparr>repentance := v\<rparr>
       | Resolve \<Rightarrow> (currentEntry (fst s))\<lparr>resolve := v\<rparr>
       | Dream \<Rightarrow> (currentEntry (fst s))\<lparr>dream := v\<rparr>)
      s"

text \<open>
  \<open>handleSave\<close>, with \<open>now\<close> the value of \<^verbatim>\<open>Date.now()\<close> and \<open>timestamp\<close> the string of
  \<^verbatim>\<open>toLocaleTimeString\<close>. An entry whose three fields are blank is not saved. Otherwise the
  new entry is put in front of \<open>savedEntries\<close>, the draft is cleared, and the new list is
  written under the saved key; if that write fails, \<open>savedEntries\<close> is set back. \<open>okDraft\<close>
  and \<open>ok\<close> tell whether the write of the draft and of the list are accepted.
\<close>

definition handleSave ::
  "bool \<Rightarrow> bool \<Rightarrow> jsstring \<Rightarrow> int \<Rightarrow> jsstring \<Rightarrow> DiaryView \<times> LocalStorage \<Rightarrow> DiaryView \<times> LocalStorage" where
  "handleSave okDraft ok storageKey now timestamp s =
    (let v = fst s; entry = currentEntry v
     in if trim (repentance entry) = [] \<and> trim (resolve entry) = [] \<and> trim (dream entry) = []
        then s
        else
          (let newEntry = \<lparr>diary_id = now, diary_timestamp = timestamp, diary_content = entry\<rparr>;
               newEntries = newEntry # savedEntries v;
               s1 = setCurrentEntry okDraft storageKey emptyEntry (v\<lparr>savedEntries := newEntries\<rparr>, snd s)
           in case saveDiaryEntries ok (snd s1) (savedKey storageKey) newEntries of
                Inr ls' \<Rightarrow> (fst s1, ls')
              | Inl e \<Rightarrow> ((fst s1)\<lparr>savedEntries := savedEntries v\<rparr>, snd s1)))"

text \<open>Concrete inputs used below: the diary of 3 November 2024 with one saved entry and a
  draft.\<close>

definition earlierEntry :: SavedDiaryEntry where
  "earlierEntry =
    \<lparr>diary_id = 1730624400000, diary_timestamp = asc ''09:00 AM'',
     diary_content = \<lparr>repentance = asc ''I was impatient'', resolve = [], dream = []\<rparr>\<rparr>"

definition draftEntry :: DiaryEntry where
  "draftEntry = \<lparr>repentance = [], resolve = asc ''Listen first'', dream = []\<rparr>"

definition diaryStore :: LocalStorage where
  "diaryStore =
    emptyStorage\<lparr>diaryItems := [savedKey (asc ''diary-2024-11-03'') \<mapsto> [earlierEntry]],
                  draftItems := [currentKey (asc ''diary-2024-11-03'') \<mapsto> draftEntry]\<rparr>"

definition laterEntry :: SavedDiaryEntry where
  "laterEntry =
    \<lparr>diary_id = 1730628000000, diary_timestamp = asc ''10:00 AM'', diary_content = draftEntry\<rparr>"

section \<open>Properties of the reading plan\<close>

lemma generateReadingPlanFrom_concat:
  "generateReadingPlanFrom es plan = plan @ concat (map planOf es)"
  by (induction es arbitrary: plan) simp_all

lemma readingPlan_concat: "readingPlan = concat (map planOf PAULINE_EPISTLES)"
  by (simp add: readingPlan_def generateReadingPlan_def generateReadingPlanFrom_concat)

lemma length_readingPlan: "length readingPlan = 87"
  by (simp add: readingPlan_concat PAULINE_EPISTLES_def planOf_def)

lemma totalChapters_87: "totalChapters = 87"
  by (simp add: totalChapters_def length_readingPlan)

text \<open>
  Claim C4. The reading plan is the concatenation, in the order of \<open>PAULINE_EPISTLES\<close>, of one
  item \<open>{book, chapter c}\<close> for each \<open>c\<close> from 1 up to the epistle's chapter count; its length is
  the sum of the listed chapter counts, which is 87. It is a constant of the module.
\<close>

theorem readingPlan_spec:
  "readingPlan =
     concat (map (\<lambda>e. map (\<lambda>c. \<lparr>item_book = book e, item_chapter = c\<rparr>) [1..chapters e])
       PAULINE_EPISTLES)
   \<and> int (length readingPlan) = sum_list (map chapters PAULINE_EPISTLES)
   \<and> length readingPlan = 87"
proof -
  have "sum_list (map chapters PAULINE_EPISTLES) = 87"
    by (simp add: PAULINE_EPISTLES_def)
  moreover have "planOf = (\<lambda>e. map (\<lambda>c. \<lparr>item_book = book e, item_chapter = c\<rparr>) [1..chapters e])"
    by (rule ext) (simp add: planOf_def)
  ultimately show ?thesis
    using readingPlan_concat length_readingPlan by simp
qed

text \<open>
  What \<open>getDailyReading\<close> computes, in every time zone: the pair of the plan for the day
  number \<open>dayOfSchedule\<close>, whose two indices lie inside the plan; and two dates with the same
  local midnight give the same pair.
\<close>

lemma getDailyReading_readingOfDay:
  "getDailyReading tz date language = readingOfDay (dayOfSchedule tz date) language"
proof -
  have "((d * 2) mod totalChapters + 1) mod totalChapters = (d * 2 + 1) mod totalChapters" for d
    by (simp add: mod_add_left_eq)
  then show ?thesis
    by (simp add: getDailyReading_def readingOfDay_def Let_def totalChapters_def)
qed

lemma readingOfDay_in_range:
  "nat ((d * 2) mod int (length readingPlan)) < length readingPlan"
  "nat ((d * 2 + 1) mod int (length readingPlan)) < length readingPlan"
  by (simp_all add: length_readingPlan)

lemma getDailyReading_same_midnight:
  "setHoursZero tz date' = setHoursZero tz date \<Longrightarrow>
   getDailyReading tz date' language = getDailyReading tz date language"
  by (simp add: getDailyReading_def dayOfSchedule_def)

text \<open>
  In a time zone whose offset never changes, the day number of the code is the number of
  calendar days from 27 July 2024 to the local day of the date, clamped below at 0.
\<close>

lemma dayOfSchedule_fixedOffset:
  "dayOfSchedule (fixedOffset off) t = max 0 ((t + off) div oneDay - daysFromCivil 2024 7 27)"
proof -
  have c: "daysFromCivil 2024 7 27 = 19931" by (simp add: daysFromCivil_def)
  have s: "SCHEDULE_START_DATE (fixedOffset off) = 19931 * oneDay - off"
    by (simp add: SCHEDULE_START_DATE_def fixedOffset_def c oneDay_def)
  have "(((t + off) div oneDay) * oneDay - off - (19931 * oneDay - off)) div oneDay
      = (t + off) div oneDay - 19931"
    by (simp add: oneDay_def algebra_simps)
  then show ?thesis
    by (simp add: dayOfSchedule_def Let_def s c max_def) (simp add: fixedOffset_def)
qed

lemma plan_items:
  "readingPlan ! 55 = \<lparr>item_book = \<lparr>ko = [47196, 47560, 49436], en = asc ''Romans''\<rparr>, item_chapter = 13\<rparr>"
  "readingPlan ! 56 = \<lparr>item_book = \<lparr>ko = [47196, 47560, 49436], en = asc ''Romans''\<rparr>, item_chapter = 14\<rparr>"
  "readingPlan ! 57 = \<lparr>item_book = \<lparr>ko = [47196, 47560, 49436], en = asc ''Romans''\<rparr>, item_chapter = 15\<rparr>"
  "readingPlan ! 58 = \<lparr>item_book = \<lparr>ko = [47196, 47560, 49436], en = asc ''Romans''\<rparr>, item_chapter = 16\<rparr>"
  by (simp_all add: readingPlan_concat PAULINE_EPISTLES_def planOf_def upto.simps nth_append)

text \<open>
  Claim C3 at an input where the code departs from it. In Sydney the clocks go forward on
  6 October 2024. The schedule starts at the local midnight of 27 July 2024. At noon of
  6 October, 71 days later, and at noon of 7 October, 72 days later, the code computes the
  same day number 71: the local midnight of 7 October comes 72 days less one hour after the
  start, and the quotient is rounded down. So 7 October repeats the reading of 6 October,
  Romans 13 and 14, where day 72 of the claim is Romans 15 and 16.
\<close>

theorem getDailyReading_sydney:
  "SCHEDULE_START_DATE sydney = 1722002400000
   \<and> (1728176400000 + sydneyOffset 1728176400000) div oneDay = daysFromCivil 2024 10 6
   \<and> (1728262800000 + sydneyOffset 1728262800000) div oneDay = daysFromCivil 2024 10 7
   \<and> daysFromCivil 2024 10 6 - daysFromCivil 2024 7 27 = 71
   \<and> daysFromCivil 2024 10 7 - daysFromCivil 2024 7 27 = 72
   \<and> setHoursZero sydney 1728262800000 - SCHEDULE_START_DATE sydney = 72 * oneDay - 3600000
   \<and> dayOfSchedule sydney 1728176400000 = 71
   \<and> dayOfSchedule sydney 1728262800000 = 71
   \<and> getDailyReading sydney 1728262800000 En
       = (\<lparr>reading_book = asc ''Romans'', reading_chapter = 13\<rparr>,
          \<lparr>reading_book = asc ''Romans'', reading_chapter = 14\<rparr>)
   \<and> getDailyReading sydney 1728262800000 Ko
       = (\<lparr>reading_book = [47196, 47560, 49436], reading_chapter = 13\<rparr>,
          \<lparr>reading_book = [47196, 47560, 49436], reading_chapter = 14\<rparr>)
   \<and> getDailyReading sydney 1728262800000 En = getDailyReading sydney 1728176400000 En
   \<and> readingOfDay 72 En
       = (\<lparr>reading_book = asc ''Romans'', reading_chapter = 15\<rparr>,
          \<lparr>reading_book = asc ''Romans'', reading_chapter = 16\<rparr>)
   \<and> getDailyReading sydney 1728262800000 En \<noteq> readingOfDay 72 En"
proof -
  have s: "SCHEDULE_START_DATE sydney = 1722002400000"
    by (simp add: SCHEDULE_START_DATE_def sydney_def sydneyMidnight_def sydneyOffset_def
        daysFromCivil_def oneDay_def)
  have m6: "setHoursZero sydney 1728176400000 = 1728136800000"
    and m7: "setHoursZero sydney 1728262800000 = 1728219600000"
    by (simp_all add: sydney_def sydneyMidnight_def sydneyOffset_def oneDay_def)
  have d6: "dayOfSchedule sydney 1728176400000 = 71"
    and d7: "dayOfSchedule sydney 1728262800000 = 71"
    by (simp_all add: dayOfSchedule_def Let_def s m6 m7 oneDay_def)
  have r71: "readingOfDay 71 l
      = (\<lparr>reading_book = bookIn l \<lparr>ko = [47196, 47560, 49436], en = asc ''Romans''\<rparr>, reading_chapter = 13\<rparr>,
         \<lparr>reading_book = bookIn l \<lparr>ko = [47196, 47560, 49436], en = asc ''Romans''\<rparr>, reading_chapter = 14\<rparr>)"
    for l
    by (simp add: readingOfDay_def Let_def length_readingPlan plan_items)
  have r72: "readingOfDay 72 l
      = (\<lparr>reading_book = bookIn l \<lparr>ko = [47196, 47560, 49436], en = asc ''Romans''\<rparr>, reading_chapter = 15\<rparr>,
         \<lparr>reading_book = bookIn l \<lparr>ko = [47196, 47560, 49436], en = asc ''Romans''\<rparr>, reading_chapter = 16\<rparr>)"
    for l
    by (simp add: readingOfDay_def Let_def length_readingPlan plan_items)
  have c: "(1728176400000 + sydneyOffset 1728176400000) div oneDay = daysFromCivil 2024 10 6"
    "(1728262800000 + sydneyOffset 1728262800000) div oneDay = daysFromCivil 2024 10 7"
    "daysFromCivil 2024 10 6 - daysFromCivil 2024 7 27 = 71"
    "daysFromCivil 2024 10 7 - daysFromCivil 2024 7 27 = 72"
    by (simp_all add: sydneyOffset_def oneDay_def daysFromCivil_def)
  have g: "setHoursZero sydney 1728262800000 - SCHEDULE_START_DATE sydney = 72 * oneDay - 3600000"
    by (simp add: s m7 oneDay_def)
  have e7: "getDailyReading sydney 1728262800000 En
       = (\<lparr>reading_book = asc ''Romans'', reading_chapter = 13\<rparr>,
          \<lparr>reading_book = asc ''Romans'', reading_chapter = 14\<rparr>)"
    and k7: "getDailyReading sydney 1728262800000 Ko
       = (\<lparr>reading_book = [47196, 47560, 49436], reading_chapter = 13\<rparr>,
          \<lparr>reading_book = [47196, 47560, 49436], reading_chapter = 14\<rparr>)"
    and same: "getDailyReading sydney 1728262800000 En = getDailyReading sydney 1728176400000 En"
    by (simp_all add: d6 d7 getDailyReading_readingOfDay r71 bookIn_def)
  have e72: "readingOfDay 72 En
       = (\<lparr>reading_book = asc ''Romans'', reading_chapter = 15\<rparr>,
          \<lparr>reading_book = asc ''Romans'', reading_chapter = 16\<rparr>)"
    by (simp add: r72 bookIn_def)
  have ne: "getDailyReading sydney 1728262800000 En \<noteq> readingOfDay 72 En"
    by (simp add: e7 e72)
  from s c g d6 d7 e7 k7 same e72 ne show ?thesis by blast
qed

section \<open>Properties of the local store\<close>

text \<open>
  The toggle on the state of the component. The record maps day numbers to the three values
  \<open>Good\<close>, \<open>Ok\<close>, \<open>Bad\<close> only. \<open>handleStatusChange day s\<close> removes the entry of \<open>day\<close> when it
  is \<open>s\<close> and sets it to \<open>s\<close> otherwise; every other day keeps its entry in the state; an
  accepted write stores the new state. On a day that does not hold \<open>s\<close>, two toggles with
  \<open>s\<close> set it and remove it again, so the day ends with no status.
\<close>

lemma handleStatusChange_state:
  "fst (handleStatusChange ok (m, ls) day s) day = (if m day = Some s then None else Some s)
   \<and> (\<forall>d. d \<noteq> day \<longrightarrow> fst (handleStatusChange ok (m, ls) day s) d = m d)
   \<and> (m day \<noteq> Some s \<longrightarrow>
        fst (handleStatusChange ok (handleStatusChange ok (m, ls) day s) day s) day = None)
   \<and> (\<forall>d v. fst (handleStatusChange ok (m, ls) day s) d = Some v \<longrightarrow> v \<in> {Good, Ok, Bad})
   \<and> meditationStatusItem (snd (handleStatusChange True (m, ls) day s))
        = Some (fst (handleStatusChange True (m, ls) day s))"
proof -
  have v: "\<And>v. v = Good \<or> v = Ok \<or> v = Bad"
    using MeditationStatus.exhaust by blast
  show ?thesis
    by (simp add: handleStatusChange_def toggled_def saveMeditationStatus_def Let_def v)
qed

text \<open>When the state is the stored record, the toggle leaves every other day of the store
  as it was.\<close>

lemma handleStatusChange_store_in_step:
  "m = getMeditationStatus ls \<Longrightarrow> d \<noteq> day \<Longrightarrow>
   getMeditationStatus (snd (handleStatusChange True (m, ls) day s)) d = getMeditationStatus ls d"
  by (simp add: handleStatusChange_def toggled_def saveMeditationStatus_def Let_def
      getMeditationStatus_def)

text \<open>
  Claim C7 at an input where the code departs from it. The store holds \<open>Bad\<close> for day 1.
  The component is mounted: its state is the empty record while the stored one is being
  fetched. Day 3 is toggled to \<open>Good\<close> before the fetch resolves. The record written to the
  store is then day 3 alone: the entry of day 1 is gone from the store, though day 1 was
  not the day toggled. When the fetch resolves, the state becomes the record read at the
  mount, and the toggle of day 3 is gone from the view.
\<close>

theorem status_toggle_while_loading:
  "getMeditationStatus statusStore 1 = Some Bad
   \<and> getMeditationStatus
        (snd (handleStatusChange True (initialMeditationStatus, statusStore) 3 Good)) 3 = Some Good
   \<and> getMeditationStatus
        (snd (handleStatusChange True (initialMeditationStatus, statusStore) 3 Good)) 1 = None
   \<and> fst (fetchInitialDataResolved (getMeditationStatus statusStore)
            (handleStatusChange True (initialMeditationStatus, statusStore) 3 Good)) 1 = Some Bad
   \<and> fst (fetchInitialDataResolved (getMeditationStatus statusStore)
            (handleStatusChange True (initialMeditationStatus, statusStore) 3 Good)) 3 = None"
  by (simp add: statusStore_def getMeditationStatus_def handleStatusChange_def toggled_def
      saveMeditationStatus_def Let_def initialMeditationStatus_def fetchInitialDataResolved_def)

text \<open>
  Claim C6, as the code has it. Let the item be readable at the call, with \<open>readings\<close> its
  value, and let the write be accepted. Then \<open>saveArchivedReading d r\<close> stores \<open>readings\<close>
  with \<open>r\<close> under day \<open>d\<close>: \<open>r\<close> is the archived reading of \<open>d\<close>, and every other day is as it
  was in the store at the call; so it is unchanged if the item was not written between the
  call and the write. Every other item of the store is as it was at the write. A later
  save for the same day replaces the record and leaves the other days. A refused write
  and an unreadable item make the call reject, and nothing is stored.
\<close>

theorem saveArchivedReading_frame:
  "(getArchivedReadings ls0 = Inr readings \<longrightarrow>
      (\<exists>ls'. saveArchivedReading True ls0 ls1 d r = Inr ls'
         \<and> getArchivedReadings ls' = Inr (readings(d \<mapsto> r))
         \<and> archivedAt ls' d = Some r
         \<and> (\<forall>d'. d' \<noteq> d \<longrightarrow> archivedAt ls' d' = archivedAt ls0 d')
         \<and> (archivedReadingsItem ls1 = archivedReadingsItem ls0 \<longrightarrow>
              (\<forall>d'. d' \<noteq> d \<longrightarrow> archivedAt ls' d' = archivedAt ls1 d'))
         \<and> diaryItems ls' = diaryItems ls1 \<and> draftItems ls' = draftItems ls1
         \<and> missionItems ls' = missionItems ls1
         \<and> meditationStatusItem ls' = meditationStatusItem ls1
         \<and> readingCacheItems ls' = readingCacheItems ls1
         \<and> (\<exists>ls''. saveArchivedReading True ls' ls' d r' = Inr ls''
              \<and> archivedAt ls'' d = Some r'
              \<and> (\<forall>d'. d' \<noteq> d \<longrightarrow> archivedAt ls'' d' = archivedAt ls0 d'))
         \<and> saveArchivedReading False ls0 ls1 d r = Inl QuotaExceededError))
   \<and> (getArchivedReadings ls0 = Inl e \<longrightarrow> saveArchivedReading ok ls0 ls1 d r = Inl e)"
  by (simp add: saveArchivedReading_def saveArchivedReadingResumed_def getArchivedReadings_def
      archivedAt_def Let_def)

text \<open>Day 1 is archived and day 2 is saved, with nothing written in between; and a save
  on an unreadable item.\<close>

theorem saveArchivedReading_frame_witness:
  "getArchivedReadings (emptyStorage\<lparr>archivedReadingsItem := Some (Readable [1 \<mapsto> sampleArchive 1])\<rparr>)
     = Inr [1 \<mapsto> sampleArchive 1]
   \<and> (1::int) \<noteq> 2
   \<and> archivedAt
        (projr (saveArchivedReading True
           (emptyStorage\<lparr>archivedReadingsItem := Some (Readable [1 \<mapsto> sampleArchive 1])\<rparr>)
           (emptyStorage\<lparr>archivedReadingsItem := Some (Readable [1 \<mapsto> sampleArchive 1])\<rparr>)
           2 (sampleArchive 2))) 1
       = Some (sampleArchive 1)
   \<and> archivedAt
        (projr (saveArchivedReading True
           (emptyStorage\<lparr>archivedReadingsItem := Some (Readable [1 \<mapsto> sampleArchive 1])\<rparr>)
           (emptyStorage\<lparr>archivedReadingsItem := Some (Readable [1 \<mapsto> sampleArchive 1])\<rparr>)
           2 (sampleArchive 2))) 2
       = Some (sampleArchive 2)
   \<and> getArchivedReadings (emptyStorage\<lparr>archivedReadingsItem := Some Unreadable\<rparr>) = Inl SyntaxError
   \<and> saveArchivedReading True (emptyStorage\<lparr>archivedReadingsItem := Some Unreadable\<rparr>)
        (emptyStorage\<lparr>archivedReadingsItem := Some Unreadable\<rparr>) 2 (sampleArchive 2)
       = Inl SyntaxError"
proof -
  let ?ls = "emptyStorage\<lparr>archivedReadingsItem := Some (Readable [1 \<mapsto> sampleArchive 1])\<rparr>"
  let ?bad = "emptyStorage\<lparr>archivedReadingsItem := Some Unreadable\<rparr>"
  have g: "getArchivedReadings ?ls = Inr [1 \<mapsto> sampleArchive 1]"
    by (simp add: getArchivedReadings_def)
  have b: "getArchivedReadings ?bad = Inl SyntaxError"
    by (simp add: getArchivedReadings_def)
  note th = saveArchivedReading_frame [of ?ls "[1 \<mapsto> sampleArchive 1]" ?ls 2 "sampleArchive 2"]
  obtain ls' where
    s: "saveArchivedReading True ?ls ?ls 2 (sampleArchive 2) = Inr ls'"
    and here: "archivedAt ls' 2 = Some (sampleArchive 2)"
    and frame: "\<forall>d'. d' \<noteq> 2 \<longrightarrow> archivedAt ls' d' = archivedAt ?ls d'"
    using th g by blast
  have "(1::int) \<noteq> 2" by simp
  with frame have "archivedAt ls' 1 = archivedAt ?ls 1" by blast
  then have one: "archivedAt ls' 1 = Some (sampleArchive 1)"
    by (simp add: archivedAt_def g)
  have r: "saveArchivedReading True ?bad ?bad 2 (sampleArchive 2) = Inl SyntaxError"
    using saveArchivedReading_frame
      [where ?ls0.0 = ?bad and ?ls1.0 = ?bad and e = SyntaxError and ok = True and d = 2
         and r = "sampleArchive 2"] b
    by blast
  from g s here one b r show ?thesis by simp
qed

text \<open>
  Claim C6 as stated holds of every save. A save whose write is refused stores nothing.
  And when a save of day 2 is called before a save of day 1 has written, and writes after
  it, the record of day 1 is no longer in the store.
\<close>

theorem saveArchivedReading_not_always:
  "saveArchivedReading False emptyStorage emptyStorage 2 (sampleArchive 2) = Inl QuotaExceededError
   \<and> archivedAt (projr (saveArchivedReading True emptyStorage emptyStorage 1 (sampleArchive 1))) 1
       = Some (sampleArchive 1)
   \<and> archivedAt
        (projr (saveArchivedReading True emptyStorage
           (projr (saveArchivedReading True emptyStorage emptyStorage 1 (sampleArchive 1)))
           2 (sampleArchive 2))) 1
       = None
   \<and> archivedAt
        (projr (saveArchivedReading True emptyStorage
           (projr (saveArchivedReading True emptyStorage emptyStorage 1 (sampleArchive 1)))
           2 (sampleArchive 2))) 2
       = Some (sampleArchive 2)"
  by (simp add: saveArchivedReading_def saveArchivedReadingResumed_def getArchivedReadings_def
      archivedAt_def Let_def emptyStorage_def)

section \<open>Properties of the image chain\<close>

lemma falsy_None: "falsy None"
  by (simp add: falsy_def)

lemma imageOf_nonempty: "imageOf r \<noteq> Some []"
  by (simp add: imageOf_def asc_def split: option.splits)

lemma generateImageLoop_nonempty: "fst (generateImageLoop ai p n tr) \<noteq> Some []"
proof (induction ai p n tr rule: generateImageLoop.induct)
  case (1 ai p attempt tr)
  show ?case
  proof (cases "attempt < MAX_RETRIES")
    case False
    then show ?thesis by (subst generateImageLoop.simps) simp
  next
    case True
    show ?thesis
    proof (cases "ai tr (imageRequest p)")
      case (Returned r)
      with True show ?thesis
        by (subst generateImageLoop.simps) (simp add: imageOf_nonempty)
    next
      case (Threw msg)
      with True "1.IH"[of msg] show ?thesis
        by (subst generateImageLoop.simps) simp
    qed
  qed
qed

lemma generateImage_falsy:
  "falsy (fst (generateImage ai p tr)) = (fst (generateImage ai p tr) = None)"
  using generateImageLoop_nonempty [of ai p 0 tr]
  by (cases "fst (generateImageLoop ai p 0 tr)") (simp_all add: falsy_def generateImage_def)

lemma generateImageLoop_unroll:
  "generateImageLoop ai p 0 tr =
    (let rq = imageRequest p;
         t1 = tr @ [Call rq]; o1 = ai tr rq;
         t2 = t1 @ [Sleep 1000, Call rq]; o2 = ai (t1 @ [Sleep 1000]) rq;
         t3 = t2 @ [Sleep 2000, Call rq]; o3 = ai (t2 @ [Sleep 2000]) rq
     in if \<not> isTransient o1 then (settled o1, t1)
        else if \<not> isTransient o2 then (settled o2, t2)
        else if \<not> isTransient o3 then (settled o3, t3)
        else (None, t3))"
  by (simp add: generateImageLoop.simps MAX_RETRIES_def Let_def isTransient_def settled_def
      split: outcome.splits)

lemma generateContextImage_steps:
  "\<not> falsy (apiKey env) \<Longrightarrow>
   generateContextImage env initialPrompt fallbackContext language tr =
    (let ai = service env;
         a1 = generateImage ai (firstAttemptPrompt language initialPrompt) tr
     in if fst a1 \<noteq> None then (Inr (fst a1), snd a1)
        else
          (let d = derivedPrompt ai language fallbackContext (snd a1);
               a2 = (case fst d of
                       Some np \<Rightarrow> generateImage ai (finalPrompt language np) (snd d)
                     | None \<Rightarrow> (None, snd d))
           in if fst a2 \<noteq> None then (Inr (fst a2), snd a2)
              else
                (let a3 = generateImage ai (imageFallback language) (snd a2)
                 in (Inr (fst a3), snd a3))))"
  by (auto simp: generateContextImage_def getAiClient_def derivedPrompt_def Let_def split_beta
      generateImage_falsy falsy_None split: outcome.splits option.splits)




text \<open>The run of the chain in \<open>lampEnv\<close>.\<close>

lemma lampEnv_key: "\<not> falsy (apiKey lampEnv)"
  by (simp add: lampEnv_def falsy_def asc_def)

lemma lampEnv_run:
  "generateContextImage lampEnv (asc ''dawn'') (asc ''hope'') En [] =
      (Inr (Some (asc ''data:image/png;base64,'' @ asc ''iVBORw0KGgo='')),
       [Call (imageRequest (firstAttemptPrompt En (asc ''dawn''))),
        Call (promptGenRequest En (asc ''hope'')),
        Call (imageRequest (finalPrompt En (asc ''a lamp'')))])"
proof -
  have t: "trim (asc '' a lamp '') = asc ''a lamp''"
    by (simp add: trim_def asc_def isWhiteSpace_def)
  have m: "model (imageRequest q) \<noteq> ''gemini-2.5-flash''" for q
    by (simp add: imageRequest_def)
  have a1: "generateImage lampService (firstAttemptPrompt En (asc ''dawn'')) []
      = (None, [Call (imageRequest (firstAttemptPrompt En (asc ''dawn'')))])"
    by (simp add: generateImage_def generateImageLoop_unroll lampService_def m isTransient_def
        settled_def imageOf_def noImage_def falsy_def)
  have d: "derivedPrompt lampService En (asc ''hope'')
        [Call (imageRequest (firstAttemptPrompt En (asc ''dawn'')))]
      = (Some (asc ''a lamp''),
         [Call (imageRequest (firstAttemptPrompt En (asc ''dawn''))),
          Call (promptGenRequest En (asc ''hope''))])"
    by (simp add: derivedPrompt_def lampService_def promptGenRequest_def noImage_def t)
      (simp add: asc_def)
  have a2: "generateImage lampService (finalPrompt En (asc ''a lamp''))
        [Call (imageRequest (firstAttemptPrompt En (asc ''dawn''))),
         Call (promptGenRequest En (asc ''hope''))]
      = (Some (asc ''data:image/png;base64,'' @ asc ''iVBORw0KGgo=''),
         [Call (imageRequest (firstAttemptPrompt En (asc ''dawn''))),
          Call (promptGenRequest En (asc ''hope'')),
          Call (imageRequest (finalPrompt En (asc ''a lamp'')))])"
    by (simp add: generateImage_def generateImageLoop_unroll lampService_def m isTransient_def
        settled_def imageOf_def noImage_def falsy_def)
  have "service lampEnv = lampService" by (simp add: lampEnv_def)
  then show ?thesis
    using generateContextImage_steps [OF lampEnv_key, of "asc ''dawn''" "asc ''hope''" En "[]"]
      a1 d a2
    by (simp add: Let_def)
qed



text \<open>
  Claim C1, as the code has it. When the API key is set, \<open>generateContextImage\<close> tries, in
  this order and stopping at the first attempt that gives an image: (1) the detailed prefix of
  the language followed by the initial prompt; (2) the prompt that the text model derives
  from the fallback context, if that call returns a text that is not blank; (3) the static
  fallback prompt of the language. Its result is the image of the first successful attempt
  and \<open>None\<close> when all attempts fail. The trace grows by the events of exactly the attempts
  made.
\<close>

theorem generateContextImage_chain:
  "\<not> falsy (apiKey env) \<Longrightarrow>
   generateContextImage env initialPrompt fallbackContext language tr =
    (let ai = service env;
         a1 = generateImage ai (firstAttemptPrompt language initialPrompt) tr
     in if fst a1 \<noteq> None then (Inr (fst a1), snd a1)
        else
          (let d = derivedPrompt ai language fallbackContext (snd a1);
               a2 = (case fst d of
                       Some np \<Rightarrow> generateImage ai (finalPrompt language np) (snd d)
                     | None \<Rightarrow> (None, snd d))
           in if fst a2 \<noteq> None then (Inr (fst a2), snd a2)
              else
                (let a3 = generateImage ai (imageFallback language) (snd a2)
                 in (Inr (fst a3), snd a3))))"
  by (rule generateContextImage_steps)

text \<open>With \<open>lampEnv\<close> the first attempt gives no image, the text model derives the prompt
  \<open>a lamp\<close>, and the second attempt succeeds; the static fallback is not tried.\<close>

theorem generateContextImage_chain_witness:
  "\<not> falsy (apiKey lampEnv)
   \<and> generateContextImage lampEnv (asc ''dawn'') (asc ''hope'') En [] =
      (let a1 = generateImage (service lampEnv) (firstAttemptPrompt En (asc ''dawn'')) [];
           d = derivedPrompt (service lampEnv) En (asc ''hope'') (snd a1);
           a2 = generateImage (service lampEnv) (finalPrompt En (asc ''a lamp'')) (snd d)
       in (Inr (fst a2), snd a2))
   \<and> generateContextImage lampEnv (asc ''dawn'') (asc ''hope'') En [] =
      (Inr (Some (asc ''data:image/png;base64,'' @ asc ''iVBORw0KGgo='')),
       [Call (imageRequest (firstAttemptPrompt En (asc ''dawn''))),
        Call (promptGenRequest En (asc ''hope'')),
        Call (imageRequest (finalPrompt En (asc ''a lamp'')))])"
proof -
  have t: "trim (asc '' a lamp '') = asc ''a lamp''"
    by (simp add: trim_def asc_def isWhiteSpace_def)
  have m: "model (imageRequest q) \<noteq> ''gemini-2.5-flash''" for q
    by (simp add: imageRequest_def)
  have a1: "generateImage lampService (firstAttemptPrompt En (asc ''dawn'')) []
      = (None, [Call (imageRequest (firstAttemptPrompt En (asc ''dawn'')))])"
    by (simp add: generateImage_def generateImageLoop_unroll lampService_def m isTransient_def
        settled_def imageOf_def noImage_def falsy_def)
  have d: "derivedPrompt lampService En (asc ''hope'')
        [Call (imageRequest (firstAttemptPrompt En (asc ''dawn'')))]
      = (Some (asc ''a lamp''),
         [Call (imageRequest (firstAttemptPrompt En (asc ''dawn''))),
          Call (promptGenRequest En (asc ''hope''))])"
    by (simp add: derivedPrompt_def lampService_def promptGenRequest_def noImage_def t)
      (simp add: asc_def)
  have a2: "generateImage lampService (finalPrompt En (asc ''a lamp''))
        [Call (imageRequest (firstAttemptPrompt En (asc ''dawn''))),
         Call (promptGenRequest En (asc ''hope''))]
      = (Some (asc ''data:image/png;base64,'' @ asc ''iVBORw0KGgo=''),
         [Call (imageRequest (firstAttemptPrompt En (asc ''dawn''))),
          Call (promptGenRequest En (asc ''hope'')),
          Call (imageRequest (finalPrompt En (asc ''a lamp'')))])"
    by (simp add: generateImage_def generateImageLoop_unroll lampService_def m isTransient_def
        settled_def imageOf_def noImage_def falsy_def)
  have s: "service lampEnv = lampService" by (simp add: lampEnv_def)
  show ?thesis
    using generateContextImage_chain [OF lampEnv_key, of "asc ''dawn''" "asc ''hope''" En "[]"]
      lampEnv_key a1 d a2 s
    by (simp add: Let_def)
qed

text \<open>
  Claim C1 as stated holds of every call. Without an API key the function throws before
  any attempt: no image request is made and no \<open>null\<close> is returned.
\<close>

theorem generateContextImage_without_key:
  "snd (generateContextImage noKeyEnv (asc ''dawn'') (asc ''hope'') En []) = []
   \<and> fst (generateContextImage noKeyEnv (asc ''dawn'') (asc ''hope'') En []) \<noteq> Inr None
   \<and> isl (fst (generateContextImage noKeyEnv (asc ''dawn'') (asc ''hope'') En []))"
  by (simp add: generateContextImage_def getAiClient_def noKeyEnv_def falsy_def)

section \<open>Properties of the text generators\<close>



section \<open>Properties of loading the daily reading\<close>

lemma fetchImageAndUpdateState_trace:
  "snd (fetchImageAndUpdateState env p f l (st, tr)) = snd (generateContextImage env p f l tr)"
  by (simp add: fetchImageAndUpdateState_def Let_def split: prod.splits sum.splits)

lemma fetchImageAndUpdateState_view:
  "passage (fst (fetchImageAndUpdateState env p f l (st, tr))) = passage st"
  "loadedPassage (fst (fetchImageAndUpdateState env p f l (st, tr))) = loadedPassage st"
  "meditationGuide (fst (fetchImageAndUpdateState env p f l (st, tr))) = meditationGuide st"
  "passageContext (fst (fetchImageAndUpdateState env p f l (st, tr))) = passageContext st"
  "passageIntention (fst (fetchImageAndUpdateState env p f l (st, tr))) = passageIntention st"
  "isLoading (fst (fetchImageAndUpdateState env p f l (st, tr))) = isLoading st"
  by (simp_all add: fetchImageAndUpdateState_def Let_def split: prod.splits sum.splits)

lemma fetchImageAndUpdateState_image:
  "fst (generateContextImage env p f l tr) = Inr u \<Longrightarrow>
   contextImageUrl (fst (fetchImageAndUpdateState env p f l (st, tr))) = u"
  by (cases "generateContextImage env p f l tr") (simp add: fetchImageAndUpdateState_def Let_def)


lemma generateImage_first:
  "\<exists>rest. snd (generateImage ai p tr) = tr @ Call (imageRequest p) # rest"
proof -
  let ?rq = "imageRequest p"
  have "snd (generateImage ai p tr) = tr @ [Call ?rq]
    \<or> snd (generateImage ai p tr) = tr @ [Call ?rq, Sleep 1000, Call ?rq]
    \<or> snd (generateImage ai p tr) = tr @ [Call ?rq, Sleep 1000, Call ?rq, Sleep 2000, Call ?rq]"
    by (simp add: generateImage_def generateImageLoop_unroll Let_def)
  then show ?thesis by blast
qed

text \<open>With the API key set, the chain begins with the request of the first attempt.\<close>

lemma generateContextImage_first:
  assumes key: "\<not> falsy (apiKey env)"
  shows "\<exists>rest. snd (generateContextImage env p c l tr)
      = tr @ Call (imageRequest (firstAttemptPrompt l p)) # rest"
proof -
  define ai where "ai = service env"
  define a1 where "a1 = generateImage ai (firstAttemptPrompt l p) tr"
  define d where "d = derivedPrompt ai l c (snd a1)"
  define a2 where "a2 = (case fst d of Some np \<Rightarrow> generateImage ai (finalPrompt l np) (snd d)
                     | None \<Rightarrow> (None, snd d))"
  define a3 where "a3 = generateImage ai (imageFallback l) (snd a2)"
  obtain r1 where r1: "snd a1 = tr @ Call (imageRequest (firstAttemptPrompt l p)) # r1"
    unfolding a1_def using generateImage_first by blast
  have sd: "snd d = snd a1 @ [Call (promptGenRequest l c)]"
    by (simp add: d_def derivedPrompt_def)
  obtain n2 where n2: "snd a2 = snd d @ n2"
  proof (cases "fst d")
    case None
    then have "snd a2 = snd d @ []" by (simp add: a2_def)
    then show ?thesis using that by blast
  next
    case (Some np)
    then have "a2 = generateImage ai (finalPrompt l np) (snd d)" by (simp add: a2_def)
    then show ?thesis using generateImage_first that by (metis append_Cons append_Nil)
  qed
  obtain n3 where n3: "snd a3 = snd a2 @ n3"
    unfolding a3_def using generateImage_first by (metis append_Cons append_Nil)
  have steps0: "generateContextImage env p c l tr
      = (if fst a1 \<noteq> None then (Inr (fst a1), snd a1)
         else if fst a2 \<noteq> None then (Inr (fst a2), snd a2)
         else (Inr (fst a3), snd a3))"
    unfolding a3_def a2_def d_def a1_def ai_def
    using generateContextImage_steps [OF key, of p c l tr, unfolded Let_def] .
  have steps: "snd (generateContextImage env p c l tr)
      = (if fst a1 \<noteq> None then snd a1 else if fst a2 \<noteq> None then snd a2 else snd a3)"
    by (simp add: steps0)
  have 2: "snd a2 = tr @ Call (imageRequest (firstAttemptPrompt l p))
      # (r1 @ [Call (promptGenRequest l c)] @ n2)"
    using r1 n2 sd by simp
  have 3: "snd a3 = tr @ Call (imageRequest (firstAttemptPrompt l p))
      # (r1 @ [Call (promptGenRequest l c)] @ n2 @ n3)"
    using r1 n2 n3 sd by simp
  show ?thesis
    using steps r1 2 3 by (metis (full_types))
qed

lemma generateContextImage_no_key:
  "falsy (apiKey env) \<Longrightarrow> snd (generateContextImage env p c l tr) = tr"
  "falsy (apiKey env) \<Longrightarrow> isl (fst (generateContextImage env p c l tr))"
  by (simp_all add: generateContextImage_def getAiClient_def)

text \<open>Generating the text calls no image model, and succeeds only with the API key set.\<close>

lemma generateComprehensiveReadingContent_trace:
  "\<exists>new. snd (generateComprehensiveReadingContent env js bk c1 c2 l tr) = tr @ new
     \<and> noImageCalls new"
proof (cases "falsy (apiKey env)")
  case True
  then have "snd (generateComprehensiveReadingContent env js bk c1 c2 l tr) = tr @ []"
    by (simp add: generateComprehensiveReadingContent_def getAiClient_def)
  moreover have "noImageCalls []" by (simp add: noImageCalls_def)
  ultimately show ?thesis by blast
next
  case False
  then have "snd (generateComprehensiveReadingContent env js bk c1 c2 l tr)
      = tr @ [Call (comprehensiveReadingRequest l bk c1 c2)]"
    by (simp add: generateComprehensiveReadingContent_def getAiClient_def)
  moreover have "noImageCalls [Call (comprehensiveReadingRequest l bk c1 c2)]"
    by (simp add: noImageCalls_def comprehensiveReadingRequest_def)
  ultimately show ?thesis by blast
qed

lemma generateComprehensiveReadingContent_key:
  "generateComprehensiveReadingContent env js bk c1 c2 l tr = (Inr x, tr1) \<Longrightarrow> \<not> falsy (apiKey env)"
  by (auto simp: generateComprehensiveReadingContent_def getAiClient_def split: if_splits)



lemma fetchFromApi_cache:
  "readingCacheItems (fst (snd (fetchFromApi env js ok key reading language (st, ls, tr)))) k = Some (Cached d)
   \<Longrightarrow> readingCacheItems ls k = Some (Cached d) \<or> c_contextImageUrl d = None"
  by (auto simp: fetchFromApi_def Let_def split: prod.splits sum.splits option.splits if_splits)

lemma fetchContent_cache:
  "readingCacheItems (fst (snd (fetchContent env js ok date reading language (st, ls, tr)))) k = Some (Cached d)
   \<Longrightarrow> readingCacheItems ls k = Some (Cached d) \<or> c_contextImageUrl d = None"
proof (cases "readingCacheItems ls (cacheKey date language)")
  case None
  then show "readingCacheItems (fst (snd (fetchContent env js ok date reading language (st, ls, tr)))) k = Some (Cached d)
   \<Longrightarrow> readingCacheItems ls k = Some (Cached d) \<or> c_contextImageUrl d = None"
    using fetchFromApi_cache [of env js ok "cacheKey date language" reading language st ls tr k d]
    by (simp add: fetchContent_def Let_def)
next
  case (Some it)
  assume a: "readingCacheItems (fst (snd (fetchContent env js ok date reading language (st, ls, tr)))) k = Some (Cached d)"
  show "readingCacheItems ls k = Some (Cached d) \<or> c_contextImageUrl d = None"
  proof (cases it)
    case (Cached c)
    with Some a show ?thesis by (simp add: fetchContent_def Let_def)
  next
    case Unparsable
    let ?ls = "ls\<lparr>readingCacheItems := (readingCacheItems ls)(cacheKey date language := None)\<rparr>"
    from Unparsable Some a
    have "readingCacheItems (fst (snd (fetchFromApi env js ok (cacheKey date language) reading language (st, ?ls, tr)))) k
        = Some (Cached d)"
      by (simp add: fetchContent_def Let_def)
    from fetchFromApi_cache [OF this]
    show ?thesis by (auto split: if_splits)
  qed
qed

text \<open>A load that finds no readable entry and whose text is generated.\<close>

lemma fetchFromApi_generated:
  assumes gen: "generateComprehensiveReadingContent env js (reading_book (fst reading))
               (reading_chapter (fst reading)) (reading_chapter (snd reading)) language tr
              = (Inr (Some g), tr1)"
  shows "readingCacheItems (fst (snd (fetchFromApi env js True key reading language (st, ls, tr)))) key
      = Some (Cached (cachedForm g))"
    and "k \<noteq> key \<Longrightarrow>
      readingCacheItems (fst (snd (fetchFromApi env js True key reading language (st, ls, tr)))) k
      = readingCacheItems ls k"
    and "fst (snd (fetchFromApi env js False key reading language (st, ls, tr))) = ls"
    and "passage (fst (fetchFromApi env js ok key reading language (st, ls, tr))) = g_passage g"
    and "loadedPassage (fst (fetchFromApi env js ok key reading language (st, ls, tr))) = g_passage g"
    and "meditationGuide (fst (fetchFromApi env js ok key reading language (st, ls, tr)))
      = g_meditationGuide g"
    and "passageContext (fst (fetchFromApi env js ok key reading language (st, ls, tr))) = g_context g"
    and "passageIntention (fst (fetchFromApi env js ok key reading language (st, ls, tr)))
      = g_intention g"
  using gen
  by (simp_all add: fetchFromApi_def Let_def cachedForm_def fetchImageAndUpdateState_view)

lemma fetchContent_miss:
  assumes miss: "\<forall>c. readingCacheItems ls (cacheKey date language) \<noteq> Some (Cached c)"
  shows "fetchContent env js ok date reading language (st, ls, tr)
      = fetchFromApi env js ok (cacheKey date language) reading language
          (st, ls\<lparr>readingCacheItems := (readingCacheItems ls)(cacheKey date language := None)\<rparr>, tr)
    \<or> fetchContent env js ok date reading language (st, ls, tr)
      = fetchFromApi env js ok (cacheKey date language) reading language (st, ls, tr)
        \<and> readingCacheItems ls (cacheKey date language) = None"
proof (cases "readingCacheItems ls (cacheKey date language)")
  case None
  then show ?thesis by (simp add: fetchContent_def Let_def)
next
  case (Some it)
  with miss have "it = Unparsable" by (cases it) simp_all
  with Some show ?thesis by (simp add: fetchContent_def Let_def)
qed

lemma fetchContent_generated:
  assumes miss: "\<forall>c. readingCacheItems ls (cacheKey date language) \<noteq> Some (Cached c)"
    and gen: "generateComprehensiveReadingContent env js (reading_book (fst reading))
               (reading_chapter (fst reading)) (reading_chapter (snd reading)) language tr
              = (Inr (Some g), tr1)"
  shows "readingCacheItems (fst (snd (fetchContent env js True date reading language (st, ls, tr))))
        (cacheKey date language) = Some (Cached (cachedForm g))"
    and "k \<noteq> cacheKey date language \<Longrightarrow>
      readingCacheItems (fst (snd (fetchContent env js True date reading language (st, ls, tr)))) k
      = readingCacheItems ls k"
    and "passage (fst (fetchContent env js ok date reading language (st, ls, tr))) = g_passage g"
    and "loadedPassage (fst (fetchContent env js ok date reading language (st, ls, tr))) = g_passage g"
    and "meditationGuide (fst (fetchContent env js ok date reading language (st, ls, tr)))
      = g_meditationGuide g"
    and "passageContext (fst (fetchContent env js ok date reading language (st, ls, tr))) = g_context g"
    and "passageIntention (fst (fetchContent env js ok date reading language (st, ls, tr)))
      = g_intention g"
  using fetchContent_miss [OF miss, of env js True reading st tr]
    fetchContent_miss [OF miss, of env js ok reading st tr]
    fetchFromApi_generated [OF gen]
  by (auto simp: fun_upd_def)

text \<open>Concrete runs used below.\<close>

lemma cachedStore_item:
  "readingCacheItems (cachedStore ip) (cacheKey (asc ''2024-11-03'') En) = Some (Cached (sampleCache ip))"
  by (simp add: cachedStore_def)


lemma sample_fields:
  "g_imagePrompt sampleData = asc ''dawn''" "g_intention sampleData = asc ''hope''"
  "g_passage sampleData = asc ''1 Paul, an apostle''"
  "c_imagePrompt (sampleCache ip) = ip" "c_intention (sampleCache ip) = asc ''hope''"
  "c_passage (sampleCache ip) = asc ''1 Paul, an apostle''"
  "cachedForm sampleData = sampleCache (asc ''dawn'')"
  "reading_book (fst sampleReading) = asc ''Galatians''"
  "reading_chapter (fst sampleReading) = 1" "reading_chapter (snd sampleReading) = 2"
  by (simp_all add: sampleData_def sampleCache_def cachedForm_def sampleReading_def)

lemma dawn_nonempty: "asc ''dawn'' \<noteq> []"
  by (simp add: asc_def)

lemma fullEnv_key: "\<not> falsy (apiKey fullEnv)"
  by (simp add: fullEnv_def falsy_def asc_def)

lemma fullEnv_reading:
  "generateComprehensiveReadingContent fullEnv readingParser (asc ''Galatians'') 1 2 En []
     = (Inr (Some sampleData), [Call (comprehensiveReadingRequest En (asc ''Galatians'') 1 2)])"
proof -
  have t: "trim sampleJson \<noteq> []"
    by (simp add: trim_def sampleJson_def isWhiteSpace_def)
  have m: "model (comprehensiveReadingRequest En (asc ''Galatians'') 1 2) \<noteq> ''gemini-2.5-flash-image''"
    by (simp add: comprehensiveReadingRequest_def)
  have k: "getAiClient fullEnv = Inr fullService"
    using fullEnv_key by (simp add: getAiClient_def fullEnv_def)
  show ?thesis
    by (simp add: generateComprehensiveReadingContent_def k fullService_def m hasText_def
        noImage_def t readingParser_def)
qed

lemma fullEnv_run:
  "generateContextImage fullEnv (asc ''dawn'') (asc ''hope'') En
      [Call (comprehensiveReadingRequest En (asc ''Galatians'') 1 2)]
    = (Inr (Some (asc ''data:image/png;base64,'' @ asc ''iVBORw0KGgo='')),
       [Call (comprehensiveReadingRequest En (asc ''Galatians'') 1 2),
        Call (imageRequest (firstAttemptPrompt En (asc ''dawn'')))])"
proof -
  have m: "model (imageRequest q) = ''gemini-2.5-flash-image''" for q
    by (simp add: imageRequest_def)
  have a1: "generateImage fullService (firstAttemptPrompt En (asc ''dawn''))
        [Call (comprehensiveReadingRequest En (asc ''Galatians'') 1 2)]
      = (Some (asc ''data:image/png;base64,'' @ asc ''iVBORw0KGgo=''),
         [Call (comprehensiveReadingRequest En (asc ''Galatians'') 1 2),
          Call (imageRequest (firstAttemptPrompt En (asc ''dawn'')))])"
    by (simp add: generateImage_def generateImageLoop_unroll fullService_def m isTransient_def
        settled_def imageOf_def noImage_def falsy_def)
  have "service fullEnv = fullService" by (simp add: fullEnv_def)
  then show ?thesis
    using generateContextImage_steps [OF fullEnv_key, of "asc ''dawn''" "asc ''hope''" En
        "[Call (comprehensiveReadingRequest En (asc ''Galatians'') 1 2)]"] a1
    by (simp add: Let_def)
qed






text \<open>What a load does about the image, case by case.\<close>

lemma fetchImageAndUpdateState_image_failed:
  "isl (fst (generateContextImage env p f l tr)) \<Longrightarrow>
   contextImageUrl (fst (fetchImageAndUpdateState env p f l (st, tr))) = contextImageUrl st"
  by (cases "generateContextImage env p f l tr")
    (auto simp: fetchImageAndUpdateState_def Let_def split: sum.splits)

lemma fetchFromApi_image:
  assumes gen: "generateComprehensiveReadingContent env js (reading_book (fst reading))
               (reading_chapter (fst reading)) (reading_chapter (snd reading)) language tr = (Inr (Some g), tr1)"
  shows "g_imagePrompt g \<noteq> [] \<Longrightarrow>
      snd (snd (fetchFromApi env js ok key reading language (st, ls, tr)))
        = snd (generateContextImage env (g_imagePrompt g) (g_intention g) language tr1)"
    and "g_imagePrompt g \<noteq> [] \<Longrightarrow>
      fst (generateContextImage env (g_imagePrompt g) (g_intention g) language tr1) = Inr u \<Longrightarrow>
      contextImageUrl (fst (fetchFromApi env js ok key reading language (st, ls, tr))) = u"
    and "g_imagePrompt g = [] \<Longrightarrow>
      snd (snd (fetchFromApi env js ok key reading language (st, ls, tr))) = tr1"
    and "g_imagePrompt g = [] \<Longrightarrow>
      contextImageUrl (fst (fetchFromApi env js ok key reading language (st, ls, tr))) = None"
  using gen
  by (simp_all add: fetchFromApi_def Let_def fetchImageAndUpdateState_trace
      fetchImageAndUpdateState_image)

lemma fetchFromApi_failed:
  assumes gen: "generateComprehensiveReadingContent env js (reading_book (fst reading))
               (reading_chapter (fst reading)) (reading_chapter (snd reading)) language tr = (r, tr1)"
    and bad: "\<forall>g. r \<noteq> Inr (Some g)"
  shows "snd (snd (fetchFromApi env js ok key reading language (st, ls, tr))) = tr1"
    and "contextImageUrl (fst (fetchFromApi env js ok key reading language (st, ls, tr))) = None"
    and "viewError (fst (fetchFromApi env js ok key reading language (st, ls, tr))) \<noteq> None"
    and "isImageLoading (fst (fetchFromApi env js ok key reading language (st, ls, tr))) = False"
  using gen bad
  by (auto simp: fetchFromApi_def Let_def split: sum.splits option.splits)

text \<open>
  Claim C10, as the code has it. Every reading-cache record that \<open>fetchContent\<close> leaves in the
  store and that was not there before has \<open>contextImageUrl\<close> \<open>None\<close> (\<^verbatim>\<open>null\<close>): the image is
  never cached. So the image is produced at every load that has an image prompt:
  with the API key set, a load that finds a readable cache entry whose image prompt is not
  empty runs the image chain on that prompt, beginning with the image request of the first
  attempt, and shows its result; a load without such an entry whose text generation
  succeeds with an image prompt that is not empty does the same after the text request.
  A load whose image prompt is empty calls no image model, a load that hits the cache
  without an API key calls nothing, and a load whose text generation fails calls no image
  model and shows an error and no image. The text generation itself calls no image model.
\<close>

theorem image_generated_at_each_load:
  "(\<forall>k d. readingCacheItems (fst (snd (fetchContent env js ok date reading language (st, ls, tr)))) k = Some (Cached d)
        \<longrightarrow> readingCacheItems ls k = Some (Cached d) \<or> c_contextImageUrl d = None)
   \<and> (\<forall>c. readingCacheItems ls (cacheKey date language) = Some (Cached c) \<and> c_imagePrompt c \<noteq> []
          \<and> \<not> falsy (apiKey env)
        \<longrightarrow> (\<exists>rest. snd (snd (fetchContent env js ok date reading language (st, ls, tr)))
                = tr @ Call (imageRequest (firstAttemptPrompt language (c_imagePrompt c))) # rest)
          \<and> snd (snd (fetchContent env js ok date reading language (st, ls, tr)))
              = snd (generateContextImage env (c_imagePrompt c) (c_intention c) language tr)
          \<and> (\<forall>u. fst (generateContextImage env (c_imagePrompt c) (c_intention c) language tr) = Inr u
                \<longrightarrow> contextImageUrl (fst (fetchContent env js ok date reading language (st, ls, tr))) = u))
   \<and> (\<forall>c. readingCacheItems ls (cacheKey date language) = Some (Cached c)
          \<and> (c_imagePrompt c = [] \<or> falsy (apiKey env))
        \<longrightarrow> snd (snd (fetchContent env js ok date reading language (st, ls, tr))) = tr \<and> contextImageUrl (fst (fetchContent env js ok date reading language (st, ls, tr))) = contextImageUrl st)
   \<and> (\<forall>g tr1. (\<forall>c. readingCacheItems ls (cacheKey date language) \<noteq> Some (Cached c))
          \<and> generateComprehensiveReadingContent env js (reading_book (fst reading))
               (reading_chapter (fst reading)) (reading_chapter (snd reading)) language tr = (Inr (Some g), tr1) \<and> g_imagePrompt g \<noteq> []
        \<longrightarrow> (\<exists>rest. snd (snd (fetchContent env js ok date reading language (st, ls, tr)))
                = tr1 @ Call (imageRequest (firstAttemptPrompt language (g_imagePrompt g))) # rest)
          \<and> snd (snd (fetchContent env js ok date reading language (st, ls, tr)))
              = snd (generateContextImage env (g_imagePrompt g) (g_intention g) language tr1)
          \<and> (\<forall>u. fst (generateContextImage env (g_imagePrompt g) (g_intention g) language tr1) = Inr u
                \<longrightarrow> contextImageUrl (fst (fetchContent env js ok date reading language (st, ls, tr))) = u))
   \<and> (\<forall>g tr1. (\<forall>c. readingCacheItems ls (cacheKey date language) \<noteq> Some (Cached c))
          \<and> generateComprehensiveReadingContent env js (reading_book (fst reading))
               (reading_chapter (fst reading)) (reading_chapter (snd reading)) language tr = (Inr (Some g), tr1) \<and> g_imagePrompt g = []
        \<longrightarrow> snd (snd (fetchContent env js ok date reading language (st, ls, tr))) = tr1 \<and> contextImageUrl (fst (fetchContent env js ok date reading language (st, ls, tr))) = None)
   \<and> (\<forall>r tr1. (\<forall>c. readingCacheItems ls (cacheKey date language) \<noteq> Some (Cached c))
          \<and> generateComprehensiveReadingContent env js (reading_book (fst reading))
               (reading_chapter (fst reading)) (reading_chapter (snd reading)) language tr = (r, tr1) \<and> (\<forall>g. r \<noteq> Inr (Some g))
        \<longrightarrow> snd (snd (fetchContent env js ok date reading language (st, ls, tr))) = tr1 \<and> contextImageUrl (fst (fetchContent env js ok date reading language (st, ls, tr))) = None
          \<and> viewError (fst (fetchContent env js ok date reading language (st, ls, tr))) \<noteq> None)
   \<and> (\<exists>new. snd (generateComprehensiveReadingContent env js (reading_book (fst reading))
               (reading_chapter (fst reading)) (reading_chapter (snd reading)) language tr) = tr @ new \<and> noImageCalls new)"
proof (intro conjI allI impI)
  fix k d
  assume "readingCacheItems (fst (snd (fetchContent env js ok date reading language (st, ls, tr)))) k = Some (Cached d)"
  then show "readingCacheItems ls k = Some (Cached d) \<or> c_contextImageUrl d = None"
    by (rule fetchContent_cache)
next
  fix c
  assume h: "readingCacheItems ls (cacheKey date language) = Some (Cached c) \<and> c_imagePrompt c \<noteq> []
          \<and> \<not> falsy (apiKey env)"
  then show t: "snd (snd (fetchContent env js ok date reading language (st, ls, tr)))
              = snd (generateContextImage env (c_imagePrompt c) (c_intention c) language tr)"
    by (simp add: fetchContent_def Let_def fetchImageAndUpdateState_trace)
  from h have "\<not> falsy (apiKey env)" by simp
  from generateContextImage_first [OF this] t
  show "\<exists>rest. snd (snd (fetchContent env js ok date reading language (st, ls, tr)))
                = tr @ Call (imageRequest (firstAttemptPrompt language (c_imagePrompt c))) # rest"
    by simp
  fix u
  assume "fst (generateContextImage env (c_imagePrompt c) (c_intention c) language tr) = Inr u"
  with h show "contextImageUrl (fst (fetchContent env js ok date reading language (st, ls, tr))) = u"
    by (simp add: fetchContent_def Let_def fetchImageAndUpdateState_image)
next
  fix c
  assume h: "readingCacheItems ls (cacheKey date language) = Some (Cached c)
          \<and> (c_imagePrompt c = [] \<or> falsy (apiKey env))"
  show "snd (snd (fetchContent env js ok date reading language (st, ls, tr))) = tr"
  proof (cases "c_imagePrompt c = []")
    case True
    with h show ?thesis by (simp add: fetchContent_def Let_def)
  next
    case False
    with h have "falsy (apiKey env)" by simp
    with h False show ?thesis
      by (simp add: fetchContent_def Let_def fetchImageAndUpdateState_trace
          generateContextImage_no_key)
  qed
  show "contextImageUrl (fst (fetchContent env js ok date reading language (st, ls, tr))) = contextImageUrl st"
  proof (cases "c_imagePrompt c = []")
    case True
    with h show ?thesis by (simp add: fetchContent_def Let_def)
  next
    case False
    with h have "falsy (apiKey env)" by simp
    with h False show ?thesis
      by (simp add: fetchContent_def Let_def fetchImageAndUpdateState_image_failed
          generateContextImage_no_key)
  qed
next
  fix g tr1
  assume h: "(\<forall>c. readingCacheItems ls (cacheKey date language) \<noteq> Some (Cached c))
          \<and> generateComprehensiveReadingContent env js (reading_book (fst reading))
               (reading_chapter (fst reading)) (reading_chapter (snd reading)) language tr = (Inr (Some g), tr1) \<and> g_imagePrompt g \<noteq> []"
  then have miss: "\<forall>c. readingCacheItems ls (cacheKey date language) \<noteq> Some (Cached c)"
    and gen: "generateComprehensiveReadingContent env js (reading_book (fst reading))
               (reading_chapter (fst reading)) (reading_chapter (snd reading)) language tr = (Inr (Some g), tr1)"
    and p: "g_imagePrompt g \<noteq> []"
    by simp_all
  from fetchContent_miss [OF miss, of env js ok reading st tr] fetchFromApi_image(1) [OF gen p]
  show t: "snd (snd (fetchContent env js ok date reading language (st, ls, tr)))
              = snd (generateContextImage env (g_imagePrompt g) (g_intention g) language tr1)"
    by auto
  from generateComprehensiveReadingContent_key [OF gen]
  have "\<not> falsy (apiKey env)" .
  from generateContextImage_first [OF this] t
  show "\<exists>rest. snd (snd (fetchContent env js ok date reading language (st, ls, tr)))
                = tr1 @ Call (imageRequest (firstAttemptPrompt language (g_imagePrompt g))) # rest"
    by simp
  fix u
  assume "fst (generateContextImage env (g_imagePrompt g) (g_intention g) language tr1) = Inr u"
  with fetchContent_miss [OF miss, of env js ok reading st tr] fetchFromApi_image(2) [OF gen p]
  show "contextImageUrl (fst (fetchContent env js ok date reading language (st, ls, tr))) = u"
    by auto
next
  fix g tr1
  assume h: "(\<forall>c. readingCacheItems ls (cacheKey date language) \<noteq> Some (Cached c))
          \<and> generateComprehensiveReadingContent env js (reading_book (fst reading))
               (reading_chapter (fst reading)) (reading_chapter (snd reading)) language tr = (Inr (Some g), tr1) \<and> g_imagePrompt g = []"
  then have miss: "\<forall>c. readingCacheItems ls (cacheKey date language) \<noteq> Some (Cached c)"
    and gen: "generateComprehensiveReadingContent env js (reading_book (fst reading))
               (reading_chapter (fst reading)) (reading_chapter (snd reading)) language tr = (Inr (Some g), tr1)"
    and p: "g_imagePrompt g = []"
    by simp_all
  from fetchContent_miss [OF miss, of env js ok reading st tr] fetchFromApi_image(3) [OF gen p]
  show "snd (snd (fetchContent env js ok date reading language (st, ls, tr))) = tr1" by auto
  from fetchContent_miss [OF miss, of env js ok reading st tr] fetchFromApi_image(4) [OF gen p]
  show "contextImageUrl (fst (fetchContent env js ok date reading language (st, ls, tr))) = None" by auto
next
  fix r tr1
  assume h: "(\<forall>c. readingCacheItems ls (cacheKey date language) \<noteq> Some (Cached c))
          \<and> generateComprehensiveReadingContent env js (reading_book (fst reading))
               (reading_chapter (fst reading)) (reading_chapter (snd reading)) language tr = (r, tr1) \<and> (\<forall>g. r \<noteq> Inr (Some g))"
  then have miss: "\<forall>c. readingCacheItems ls (cacheKey date language) \<noteq> Some (Cached c)"
    and gen: "generateComprehensiveReadingContent env js (reading_book (fst reading))
               (reading_chapter (fst reading)) (reading_chapter (snd reading)) language tr = (r, tr1)"
    and bad: "\<forall>g. r \<noteq> Inr (Some g)"
    by simp_all
  note f = fetchFromApi_failed [OF gen bad]
  from fetchContent_miss [OF miss, of env js ok reading st tr] f(1)
  show "snd (snd (fetchContent env js ok date reading language (st, ls, tr))) = tr1" by auto
  from fetchContent_miss [OF miss, of env js ok reading st tr] f(2)
  show "contextImageUrl (fst (fetchContent env js ok date reading language (st, ls, tr))) = None" by auto
  from fetchContent_miss [OF miss, of env js ok reading st tr] f(3)
  show "viewError (fst (fetchContent env js ok date reading language (st, ls, tr))) \<noteq> None" by auto
next
  show "\<exists>new. snd (generateComprehensiveReadingContent env js (reading_book (fst reading))
               (reading_chapter (fst reading)) (reading_chapter (snd reading)) language tr) = tr @ new \<and> noImageCalls new"
    by (rule generateComprehensiveReadingContent_trace)
qed

text \<open>Concrete loads: a service whose text has no image prompt, and one that fails.\<close>

lemma plainEnv_reading:
  "generateComprehensiveReadingContent plainEnv readingParser (asc ''Galatians'') 1 2 En []
     = (Inr (Some plainData), [Call (comprehensiveReadingRequest En (asc ''Galatians'') 1 2)])"
proof -
  have t: "trim plainJson \<noteq> []"
    by (simp add: trim_def plainJson_def isWhiteSpace_def)
  have n: "plainJson \<noteq> sampleJson"
    by (simp add: plainJson_def sampleJson_def)
  have m: "model (comprehensiveReadingRequest En (asc ''Galatians'') 1 2) \<noteq> ''gemini-2.5-flash-image''"
    by (simp add: comprehensiveReadingRequest_def)
  have "\<not> falsy (apiKey plainEnv)"
    by (simp add: plainEnv_def falsy_def asc_def)
  then have k: "getAiClient plainEnv = Inr plainService"
    by (simp add: getAiClient_def plainEnv_def)
  show ?thesis
    by (simp add: generateComprehensiveReadingContent_def k plainService_def m hasText_def
        noImage_def t n readingParser_def)
qed

lemma failingEnv_reading:
  "generateComprehensiveReadingContent failingEnv js (asc ''Galatians'') 1 2 En []
     = (Inl (Thrown (asc ''{message: Rpc failed due to xhr error}'') None), [Call (comprehensiveReadingRequest En (asc ''Galatians'') 1 2)])"
proof -
  have "\<not> falsy (apiKey failingEnv)"
    by (simp add: failingEnv_def falsy_def asc_def)
  then have k: "getAiClient failingEnv = Inr alwaysTransient"
    by (simp add: getAiClient_def failingEnv_def)
  show ?thesis
    by (simp add: generateComprehensiveReadingContent_def k alwaysTransient_def)
qed

lemma noKeyEnv_key: "falsy (apiKey noKeyEnv)"
  by (simp add: noKeyEnv_def falsy_def)

lemma emptyStorage_miss: "\<forall>c. readingCacheItems emptyStorage k \<noteq> Some (Cached c)"
  by (simp add: emptyStorage_def)

text \<open>
  Six loads for 3 November 2024 in English. With an empty store and a service that answers:
  the record cached has no image, the image request follows the text request and its image
  is shown. With the cached record and the key: the image chain runs on the cached prompt.
  With a cached record whose prompt is empty, and with the cached record but no key:
  nothing is called. With an empty store and generated text without an image prompt: only
  the text request. With a failing service: only the text request, and an error is shown.
\<close>

theorem image_generated_at_each_load_witness:
  "readingCacheItems (fst (snd (fetchContent fullEnv readingParser True (asc ''2024-11-03'') sampleReading En (initialView, emptyStorage, [])))) (cacheKey (asc ''2024-11-03'') En)
       = Some (Cached (sampleCache (asc ''dawn'')))
   \<and> c_contextImageUrl (sampleCache (asc ''dawn'')) = None
   \<and> snd (snd (fetchContent fullEnv readingParser True (asc ''2024-11-03'') sampleReading En (initialView, emptyStorage, [])))
       = [Call (comprehensiveReadingRequest En (asc ''Galatians'') 1 2), Call (imageRequest (firstAttemptPrompt En (asc ''dawn'')))]
   \<and> contextImageUrl (fst (fetchContent fullEnv readingParser True (asc ''2024-11-03'') sampleReading En (initialView, emptyStorage, []))) = Some (asc ''data:image/png;base64,'' @ asc ''iVBORw0KGgo='')
   \<and> snd (snd (fetchContent lampEnv readingParser True (asc ''2024-11-03'') sampleReading En (initialView, cachedStore (asc ''dawn''), [])))
       = [Call (imageRequest (firstAttemptPrompt En (asc ''dawn''))),
          Call (promptGenRequest En (asc ''hope'')),
          Call (imageRequest (finalPrompt En (asc ''a lamp'')))]
   \<and> contextImageUrl (fst (fetchContent lampEnv readingParser True (asc ''2024-11-03'') sampleReading En (initialView, cachedStore (asc ''dawn''), []))) = Some (asc ''data:image/png;base64,'' @ asc ''iVBORw0KGgo='')
   \<and> snd (snd (fetchContent lampEnv readingParser True (asc ''2024-11-03'') sampleReading En (initialView, cachedStore [], []))) = []
   \<and> contextImageUrl (fst (fetchContent lampEnv readingParser True (asc ''2024-11-03'') sampleReading En (initialView, cachedStore [], []))) = None
   \<and> snd (snd (fetchContent noKeyEnv readingParser True (asc ''2024-11-03'') sampleReading En (initialView, cachedStore (asc ''dawn''), []))) = []
   \<and> contextImageUrl (fst (fetchContent noKeyEnv readingParser True (asc ''2024-11-03'') sampleReading En (initialView, cachedStore (asc ''dawn''), []))) = None
   \<and> snd (snd (fetchContent plainEnv readingParser True (asc ''2024-11-03'') sampleReading En (initialView, emptyStorage, []))) = [Call (comprehensiveReadingRequest En (asc ''Galatians'') 1 2)]
   \<and> contextImageUrl (fst (fetchContent plainEnv readingParser True (asc ''2024-11-03'') sampleReading En (initialView, emptyStorage, []))) = None
   \<and> snd (snd (fetchContent failingEnv readingParser True (asc ''2024-11-03'') sampleReading En (initialView, emptyStorage, []))) = [Call (comprehensiveReadingRequest En (asc ''Galatians'') 1 2)]
   \<and> contextImageUrl (fst (fetchContent failingEnv readingParser True (asc ''2024-11-03'') sampleReading En (initialView, emptyStorage, []))) = None
   \<and> viewError (fst (fetchContent failingEnv readingParser True (asc ''2024-11-03'') sampleReading En (initialView, emptyStorage, []))) \<noteq> None
   \<and> noImageCalls [Call (comprehensiveReadingRequest En (asc ''Galatians'') 1 2)]"
proof -
  note full = image_generated_at_each_load
    [of fullEnv readingParser True "asc ''2024-11-03''" sampleReading En initialView
        emptyStorage "[]"]
  note hit = image_generated_at_each_load
    [of lampEnv readingParser True "asc ''2024-11-03''" sampleReading En initialView
        "cachedStore (asc ''dawn'')" "[]"]
  note hit0 = image_generated_at_each_load
    [of lampEnv readingParser True "asc ''2024-11-03''" sampleReading En initialView
        "cachedStore []" "[]"]
  note nokey = image_generated_at_each_load
    [of noKeyEnv readingParser True "asc ''2024-11-03''" sampleReading En initialView
        "cachedStore (asc ''dawn'')" "[]"]
  note plain = image_generated_at_each_load
    [of plainEnv readingParser True "asc ''2024-11-03''" sampleReading En initialView
        emptyStorage "[]"]
  note fail = image_generated_at_each_load
    [of failingEnv readingParser True "asc ''2024-11-03''" sampleReading En initialView
        emptyStorage "[]"]
  note miss = emptyStorage_miss [of "cacheKey (asc ''2024-11-03'') En"]
  have gfull: "generateComprehensiveReadingContent fullEnv readingParser
        (reading_book (fst sampleReading)) (reading_chapter (fst sampleReading))
        (reading_chapter (snd sampleReading)) En []
      = (Inr (Some sampleData), [Call (comprehensiveReadingRequest En (asc ''Galatians'') 1 2)])"
    by (simp add: sample_fields fullEnv_reading)
  have gplain: "generateComprehensiveReadingContent plainEnv readingParser
        (reading_book (fst sampleReading)) (reading_chapter (fst sampleReading))
        (reading_chapter (snd sampleReading)) En []
      = (Inr (Some plainData), [Call (comprehensiveReadingRequest En (asc ''Galatians'') 1 2)])"
    by (simp add: sample_fields plainEnv_reading)
  have gfail: "generateComprehensiveReadingContent failingEnv readingParser
        (reading_book (fst sampleReading)) (reading_chapter (fst sampleReading))
        (reading_chapter (snd sampleReading)) En []
      = (Inl (Thrown (asc ''{message: Rpc failed due to xhr error}'') None), [Call (comprehensiveReadingRequest En (asc ''Galatians'') 1 2)])"
    by (simp add: sample_fields failingEnv_reading)
  have pd: "g_imagePrompt sampleData \<noteq> []"
    using dawn_nonempty by (simp add: sample_fields)
  have pp: "g_imagePrompt plainData = []"
    by (simp add: plainData_def)
  have stored: "readingCacheItems (fst (snd (fetchContent fullEnv readingParser True (asc ''2024-11-03'') sampleReading En (initialView, emptyStorage, [])))) (cacheKey (asc ''2024-11-03'') En)
       = Some (Cached (sampleCache (asc ''dawn'')))"
    using fetchContent_generated(1) [OF miss gfull, of initialView] sample_fields(7)
    by simp
  from full [THEN conjunct1, rule_format, OF stored]
  have "readingCacheItems emptyStorage (cacheKey (asc ''2024-11-03'') En) = Some (Cached (sampleCache (asc ''dawn'')))
      \<or> c_contextImageUrl (sampleCache (asc ''dawn'')) = None" .
  with miss have w1: "c_contextImageUrl (sampleCache (asc ''dawn'')) = None"
    by blast
  note f4 = full [THEN conjunct2, THEN conjunct2, THEN conjunct2, THEN conjunct1, rule_format, OF conjI [OF miss conjI [OF gfull pd]]]
  from f4 [THEN conjunct2, THEN conjunct1]
  have w2: "snd (snd (fetchContent fullEnv readingParser True (asc ''2024-11-03'') sampleReading En (initialView, emptyStorage, [])))
       = [Call (comprehensiveReadingRequest En (asc ''Galatians'') 1 2), Call (imageRequest (firstAttemptPrompt En (asc ''dawn'')))]"
    by (simp add: sample_fields fullEnv_run)
  have "fst (generateContextImage fullEnv (g_imagePrompt sampleData) (g_intention sampleData) En
          [Call (comprehensiveReadingRequest En (asc ''Galatians'') 1 2)]) = Inr (Some (asc ''data:image/png;base64,'' @ asc ''iVBORw0KGgo=''))"
    by (simp add: sample_fields fullEnv_run)
  from f4 [THEN conjunct2, THEN conjunct2, rule_format, OF this]
  have w3: "contextImageUrl (fst (fetchContent fullEnv readingParser True (asc ''2024-11-03'') sampleReading En (initialView, emptyStorage, []))) = Some (asc ''data:image/png;base64,'' @ asc ''iVBORw0KGgo='')" .
  have hc: "readingCacheItems (cachedStore (asc ''dawn'')) (cacheKey (asc ''2024-11-03'') En)
        = Some (Cached (sampleCache (asc ''dawn'')))
      \<and> c_imagePrompt (sampleCache (asc ''dawn'')) \<noteq> [] \<and> \<not> falsy (apiKey lampEnv)"
    using cachedStore_item [of "asc ''dawn''"] dawn_nonempty lampEnv_key
    by (simp add: sample_fields)
  note h2 = hit [THEN conjunct2, THEN conjunct1, rule_format, OF hc]
  from h2 [THEN conjunct2, THEN conjunct1]
  have w4: "snd (snd (fetchContent lampEnv readingParser True (asc ''2024-11-03'') sampleReading En (initialView, cachedStore (asc ''dawn''), [])))
       = [Call (imageRequest (firstAttemptPrompt En (asc ''dawn''))),
          Call (promptGenRequest En (asc ''hope'')),
          Call (imageRequest (finalPrompt En (asc ''a lamp'')))]"
    by (simp add: sample_fields lampEnv_run)
  have "fst (generateContextImage lampEnv (c_imagePrompt (sampleCache (asc ''dawn'')))
          (c_intention (sampleCache (asc ''dawn''))) En []) = Inr (Some (asc ''data:image/png;base64,'' @ asc ''iVBORw0KGgo=''))"
    by (simp add: sample_fields lampEnv_run)
  from h2 [THEN conjunct2, THEN conjunct2, rule_format, OF this]
  have w5: "contextImageUrl (fst (fetchContent lampEnv readingParser True (asc ''2024-11-03'') sampleReading En (initialView, cachedStore (asc ''dawn''), []))) = Some (asc ''data:image/png;base64,'' @ asc ''iVBORw0KGgo='')" .
  have h0c: "readingCacheItems (cachedStore []) (cacheKey (asc ''2024-11-03'') En) = Some (Cached (sampleCache []))
      \<and> (c_imagePrompt (sampleCache []) = [] \<or> falsy (apiKey lampEnv))"
    using cachedStore_item [of "[]"] by (simp add: sample_fields)
  from hit0 [THEN conjunct2, THEN conjunct2, THEN conjunct1, rule_format, OF h0c]
  have w6: "snd (snd (fetchContent lampEnv readingParser True (asc ''2024-11-03'') sampleReading En (initialView, cachedStore [], []))) = []"
    and w7: "contextImageUrl (fst (fetchContent lampEnv readingParser True (asc ''2024-11-03'') sampleReading En (initialView, cachedStore [], []))) = None"
    by (simp_all add: initialView_def)
  have nc: "readingCacheItems (cachedStore (asc ''dawn'')) (cacheKey (asc ''2024-11-03'') En)
        = Some (Cached (sampleCache (asc ''dawn'')))
      \<and> (c_imagePrompt (sampleCache (asc ''dawn'')) = [] \<or> falsy (apiKey noKeyEnv))"
    using cachedStore_item [of "asc ''dawn''"] noKeyEnv_key by simp
  from nokey [THEN conjunct2, THEN conjunct2, THEN conjunct1, rule_format, OF nc]
  have w8: "snd (snd (fetchContent noKeyEnv readingParser True (asc ''2024-11-03'') sampleReading En (initialView, cachedStore (asc ''dawn''), []))) = []"
    and w9: "contextImageUrl (fst (fetchContent noKeyEnv readingParser True (asc ''2024-11-03'') sampleReading En (initialView, cachedStore (asc ''dawn''), []))) = None"
    by (simp_all add: initialView_def)
  from plain [THEN conjunct2, THEN conjunct2, THEN conjunct2, THEN conjunct2, THEN conjunct1, rule_format, OF conjI [OF miss conjI [OF gplain pp]]]
  have w10: "snd (snd (fetchContent plainEnv readingParser True (asc ''2024-11-03'') sampleReading En (initialView, emptyStorage, []))) = [Call (comprehensiveReadingRequest En (asc ''Galatians'') 1 2)]"
    and w11: "contextImageUrl (fst (fetchContent plainEnv readingParser True (asc ''2024-11-03'') sampleReading En (initialView, emptyStorage, []))) = None"
    by simp_all
  have bad: "\<forall>g. (Inl (Thrown (asc ''{message: Rpc failed due to xhr error}'') None)
        :: thrown + ComprehensiveData option) \<noteq> Inr (Some g)"
    by simp
  from fail [THEN conjunct2, THEN conjunct2, THEN conjunct2, THEN conjunct2, THEN conjunct2, THEN conjunct1, rule_format, OF conjI [OF miss conjI [OF gfail bad]]]
  have w12: "snd (snd (fetchContent failingEnv readingParser True (asc ''2024-11-03'') sampleReading En (initialView, emptyStorage, []))) = [Call (comprehensiveReadingRequest En (asc ''Galatians'') 1 2)]"
    and w13: "contextImageUrl (fst (fetchContent failingEnv readingParser True (asc ''2024-11-03'') sampleReading En (initialView, emptyStorage, []))) = None"
    and w14: "viewError (fst (fetchContent failingEnv readingParser True (asc ''2024-11-03'') sampleReading En (initialView, emptyStorage, []))) \<noteq> None"
    by simp_all
  from full [THEN conjunct2, THEN conjunct2, THEN conjunct2, THEN conjunct2, THEN conjunct2, THEN conjunct2] gfull
  have "\<exists>new. [Call (comprehensiveReadingRequest En (asc ''Galatians'') 1 2)] = [] @ new \<and> noImageCalls new"
    by simp
  then have w15: "noImageCalls [Call (comprehensiveReadingRequest En (asc ''Galatians'') 1 2)]"
    by simp
  from stored w1 w2 w3 w4 w5 w6 w7 w8 w9 w10 w11 w12 w13 w14 w15
  show ?thesis by blast
qed

text \<open>
  Claim C10 as stated has an image generation started on every load. A load that hits a
  cache entry whose image prompt is empty shows the text and calls nothing: the trace stays
  empty and no image is set. The same holds for a load that hits a cache entry with an
  image prompt when no API key is set. And a load that finds no cache entry and whose text
  request fails makes that one request, none to the image model.
\<close>

theorem fetchContent_without_image_prompt:
  "readingCacheItems (cachedStore []) (cacheKey (asc ''2024-11-03'') En) = Some (Cached (sampleCache []))
   \<and> passage (fst (fetchContent lampEnv readingParser True (asc ''2024-11-03'') sampleReading En (initialView, cachedStore [], []))) = asc ''1 Paul, an apostle''
   \<and> snd (snd (fetchContent lampEnv readingParser True (asc ''2024-11-03'') sampleReading En (initialView, cachedStore [], []))) = []
   \<and> contextImageUrl (fst (fetchContent lampEnv readingParser True (asc ''2024-11-03'') sampleReading En (initialView, cachedStore [], []))) = None
   \<and> readingCacheItems (cachedStore (asc ''dawn'')) (cacheKey (asc ''2024-11-03'') En)
       = Some (Cached (sampleCache (asc ''dawn'')))
   \<and> c_imagePrompt (sampleCache (asc ''dawn'')) \<noteq> []
   \<and> apiKey noKeyEnv = None
   \<and> passage (fst (fetchContent noKeyEnv readingParser True (asc ''2024-11-03'') sampleReading En (initialView, cachedStore (asc ''dawn''), []))) = asc ''1 Paul, an apostle''
   \<and> snd (snd (fetchContent noKeyEnv readingParser True (asc ''2024-11-03'') sampleReading En (initialView, cachedStore (asc ''dawn''), []))) = []
   \<and> contextImageUrl (fst (fetchContent noKeyEnv readingParser True (asc ''2024-11-03'') sampleReading En (initialView, cachedStore (asc ''dawn''), []))) = None
   \<and> readingCacheItems emptyStorage (cacheKey (asc ''2024-11-03'') En) = None
   \<and> callsOf (snd (snd (fetchContent failingEnv readingParser True (asc ''2024-11-03'') sampleReading En (initialView, emptyStorage, [])))) = [comprehensiveReadingRequest En (asc ''Galatians'') 1 2]
   \<and> model (comprehensiveReadingRequest En (asc ''Galatians'') 1 2) \<noteq> ''gemini-2.5-flash-image''"
proof -
  have a: "passage (fst (fetchContent lampEnv readingParser True (asc ''2024-11-03'') sampleReading En (initialView, cachedStore [], []))) = asc ''1 Paul, an apostle''"
    "snd (snd (fetchContent lampEnv readingParser True (asc ''2024-11-03'') sampleReading En (initialView, cachedStore [], []))) = []"
    "contextImageUrl (fst (fetchContent lampEnv readingParser True (asc ''2024-11-03'') sampleReading En (initialView, cachedStore [], []))) = None"
    by (simp_all add: fetchContent_def Let_def cachedStore_item sample_fields initialView_def)
  have g: "getAiClient noKeyEnv
      = Inl (newError (asc (''VITE_GEMINI_API_KEY environment variable is not set. '' @
                            ''Please check your Vercel environment variables.'')))"
    using noKeyEnv_key by (simp add: getAiClient_def)
  have b: "passage (fst (fetchContent noKeyEnv readingParser True (asc ''2024-11-03'') sampleReading En (initialView, cachedStore (asc ''dawn''), []))) = asc ''1 Paul, an apostle''"
    "snd (snd (fetchContent noKeyEnv readingParser True (asc ''2024-11-03'') sampleReading En (initialView, cachedStore (asc ''dawn''), []))) = []"
    "contextImageUrl (fst (fetchContent noKeyEnv readingParser True (asc ''2024-11-03'') sampleReading En (initialView, cachedStore (asc ''dawn''), []))) = None"
    using dawn_nonempty
    by (simp_all add: fetchContent_def Let_def cachedStore_item sample_fields initialView_def
        fetchImageAndUpdateState_def generateContextImage_def g)
  have c: "callsOf (snd (snd (fetchContent failingEnv readingParser True (asc ''2024-11-03'') sampleReading En (initialView, emptyStorage, [])))) = [comprehensiveReadingRequest En (asc ''Galatians'') 1 2]"
    by (simp add: fetchContent_def fetchFromApi_def Let_def emptyStorage_def sample_fields
        failingEnv_reading)
  have d: "model (comprehensiveReadingRequest En (asc ''Galatians'') 1 2) \<noteq> ''gemini-2.5-flash-image''"
    by (simp add: comprehensiveReadingRequest_def)
  have e: "c_imagePrompt (sampleCache (asc ''dawn'')) \<noteq> []" "apiKey noKeyEnv = None"
    "readingCacheItems emptyStorage (cacheKey (asc ''2024-11-03'') En) = None"
    using dawn_nonempty by (simp_all add: sample_fields noKeyEnv_def emptyStorage_def)
  from a b c d e cachedStore_item [of "[]"] cachedStore_item [of "asc ''dawn''"]
  show ?thesis by blast
qed

section \<open>Properties of the faith diary\<close>

text \<open>
  On the state it is given, \<open>handleSave\<close> with an entry that is not blank puts exactly one
  new entry in front of \<open>savedEntries\<close> and writes that list under the saved key; when the
  write is refused, the list and the stored item are as before.
\<close>

lemma handleSave_prepends:
  assumes "\<not> (trim (repentance (currentEntry v)) = [] \<and> trim (resolve (currentEntry v)) = []
              \<and> trim (dream (currentEntry v)) = [])"
  shows "savedEntries (fst (handleSave okDraft True storageKey now timestamp (v, ls)))
      = \<lparr>diary_id = now, diary_timestamp = timestamp, diary_content = currentEntry v\<rparr> # savedEntries v"
    and "diaryItems (snd (handleSave okDraft True storageKey now timestamp (v, ls))) (savedKey storageKey)
      = Some (\<lparr>diary_id = now, diary_timestamp = timestamp, diary_content = currentEntry v\<rparr> # savedEntries v)"
    and "savedEntries (fst (handleSave okDraft False storageKey now timestamp (v, ls))) = savedEntries v"
    and "diaryItems (snd (handleSave okDraft False storageKey now timestamp (v, ls))) = diaryItems ls"
  using assms
  by (auto simp: handleSave_def Let_def setCurrentEntry_def saveDiaryEntries_def)

text \<open>
  Claim C5 at an input where the code departs from it. The store holds one saved entry and
  a draft for the day. The component is mounted: \<open>savedEntries\<close> is empty while the saved
  list is being fetched. \<open>handleSave\<close> is called before the fetch resolves. The list
  written under the saved key is then the new entry alone: the entry saved earlier is gone
  from the store. When the fetch resolves, \<open>savedEntries\<close> becomes the list read at mount,
  without the new entry.
\<close>

theorem diary_save_while_syncing:
  "getDiaryEntries diaryStore (savedKey (asc ''diary-2024-11-03'')) = [earlierEntry]
   \<and> savedEntries (mountDiary (asc ''diary-2024-11-03'') diaryStore) = []
   \<and> getDiaryEntries
        (snd (handleSave True True (asc ''diary-2024-11-03'') 1730628000000 (asc ''10:00 AM'')
                (mountDiary (asc ''diary-2024-11-03'') diaryStore, diaryStore)))
        (savedKey (asc ''diary-2024-11-03'')) = [laterEntry]
   \<and> earlierEntry \<notin> set (getDiaryEntries
        (snd (handleSave True True (asc ''diary-2024-11-03'') 1730628000000 (asc ''10:00 AM'')
                (mountDiary (asc ''diary-2024-11-03'') diaryStore, diaryStore)))
        (savedKey (asc ''diary-2024-11-03'')))
   \<and> savedEntries (fetchEntriesResolved
        (fst (handleSave True True (asc ''diary-2024-11-03'') 1730628000000 (asc ''10:00 AM'')
                (mountDiary (asc ''diary-2024-11-03'') diaryStore, diaryStore)))) = [earlierEntry]"
proof -
  have k: "savedKey (asc ''diary-2024-11-03'') \<noteq> currentKey (asc ''diary-2024-11-03'')"
    by (simp add: savedKey_def currentKey_def asc_def)
  have b: "trim (asc ''Listen first'') \<noteq> []"
    by (simp add: trim_def asc_def isWhiteSpace_def)
  have m: "mountDiary (asc ''diary-2024-11-03'') diaryStore
      = \<lparr>currentEntry = draftEntry, savedEntries = [], isSyncing = True,
         pendingEntries = Some [earlierEntry]\<rparr>"
    by (simp add: mountDiary_def diaryStore_def getDiaryEntries_def k)
  have ne: "earlierEntry \<noteq> laterEntry"
    by (simp add: earlierEntry_def laterEntry_def)
  have hs: "handleSave True True (asc ''diary-2024-11-03'') 1730628000000 (asc ''10:00 AM'')
        (mountDiary (asc ''diary-2024-11-03'') diaryStore, diaryStore)
      = (\<lparr>currentEntry = emptyEntry, savedEntries = [laterEntry], isSyncing = True,
          pendingEntries = Some [earlierEntry]\<rparr>,
         diaryStore
           \<lparr>draftItems := (draftItems diaryStore)(currentKey (asc ''diary-2024-11-03'') \<mapsto> emptyEntry),
            diaryItems := (diaryItems diaryStore)(savedKey (asc ''diary-2024-11-03'') \<mapsto> [laterEntry])\<rparr>)"
    unfolding m using b
    by (simp add: handleSave_def Let_def setCurrentEntry_def saveDiaryEntries_def laterEntry_def
        draftEntry_def)
  have g: "getDiaryEntries diaryStore (savedKey (asc ''diary-2024-11-03'')) = [earlierEntry]"
    by (simp add: diaryStore_def getDiaryEntries_def k)
  have m0: "savedEntries (mountDiary (asc ''diary-2024-11-03'') diaryStore) = []"
    by (simp add: m)
  have after: "getDiaryEntries
        (snd (handleSave True True (asc ''diary-2024-11-03'') 1730628000000 (asc ''10:00 AM'')
                (mountDiary (asc ''diary-2024-11-03'') diaryStore, diaryStore)))
        (savedKey (asc ''diary-2024-11-03'')) = [laterEntry]"
    by (simp add: hs getDiaryEntries_def)
  have resolved: "savedEntries (fetchEntriesResolved
        (fst (handleSave True True (asc ''diary-2024-11-03'') 1730628000000 (asc ''10:00 AM'')
                (mountDiary (asc ''diary-2024-11-03'') diaryStore, diaryStore)))) = [earlierEntry]"
    by (simp add: hs fetchEntriesResolved_def)
  show ?thesis
    using ne by (simp add: g m0 after resolved)
qed

end
